theory Spec2Isabelle
  imports Complex_Main
begin

section \<open>Numeric cells\<close>

text \<open>
  A numeric cell of a pandas float64 series: a finite number, one of the two infinities
  (division of a non-zero number by zero), or NaN, which pandas reads as "missing".
  Arithmetic on finite numbers is exact (rounding is not modelled) and there is one zero.
\<close>

datatype fl = NaN | NInf | Fin real | PInf

fun fneg :: "fl \<Rightarrow> fl" where
  "fneg NaN = NaN"
| "fneg NInf = PInf"
| "fneg PInf = NInf"
| "fneg (Fin x) = Fin (- x)"

fun fadd :: "fl \<Rightarrow> fl \<Rightarrow> fl" where
  "fadd NaN _ = NaN"
| "fadd _ NaN = NaN"
| "fadd PInf NInf = NaN"
| "fadd NInf PInf = NaN"
| "fadd PInf _ = PInf"
| "fadd _ PInf = PInf"
| "fadd NInf _ = NInf"
| "fadd _ NInf = NInf"
| "fadd (Fin x) (Fin y) = Fin (x + y)"

definition fsub :: "fl \<Rightarrow> fl \<Rightarrow> fl" where
  "fsub a b = fadd a (fneg b)"

text \<open>The sign of a non-NaN cell: \<open>-1\<close>, \<open>0\<close> or \<open>1\<close>.\<close>

fun fsgn :: "fl \<Rightarrow> int" where
  "fsgn NaN = 0"
| "fsgn NInf = - 1"
| "fsgn PInf = 1"
| "fsgn (Fin x) = (if x < 0 then - 1 else if x = 0 then 0 else 1)"

definition finf :: "int \<Rightarrow> fl" where
  "finf s = (if s < 0 then NInf else PInf)"

fun fmul :: "fl \<Rightarrow> fl \<Rightarrow> fl" where
  "fmul NaN _ = NaN"
| "fmul _ NaN = NaN"
| "fmul (Fin x) (Fin y) = Fin (x * y)"
| "fmul a b = (if fsgn a = 0 \<or> fsgn b = 0 then NaN else finf (fsgn a * fsgn b))"

text \<open>
  IEEE division: a non-zero number over zero is an infinity (the zero is taken as \<open>+0.0\<close>),
  zero over zero and infinity over infinity are NaN, a finite number over an infinity is zero.
\<close>

fun fdiv :: "fl \<Rightarrow> fl \<Rightarrow> fl" where
  "fdiv NaN _ = NaN"
| "fdiv _ NaN = NaN"
| "fdiv (Fin x) (Fin y) = (if y = 0 then (if x = 0 then NaN else finf (fsgn (Fin x))) else Fin (x / y))"
| "fdiv (Fin x) _ = Fin 0"
| "fdiv a (Fin y) = finf (fsgn a * (if y < 0 then - 1 else 1))"
| "fdiv _ _ = NaN"

text \<open>Comparisons: every comparison with NaN is false.\<close>

fun flt :: "fl \<Rightarrow> fl \<Rightarrow> bool" where
  "flt NaN _ = False"
| "flt _ NaN = False"
| "flt (Fin x) (Fin y) = (x < y)"
| "flt NInf NInf = False"
| "flt NInf _ = True"
| "flt _ NInf = False"
| "flt PInf _ = False"
| "flt _ PInf = True"

definition fgt :: "fl \<Rightarrow> fl \<Rightarrow> bool" where
  "fgt a b = flt b a"

definition feq :: "fl \<Rightarrow> fl \<Rightarrow> bool" where
  "feq a b = (a \<noteq> NaN \<and> a = b)"

definition fle :: "fl \<Rightarrow> fl \<Rightarrow> bool" where
  "fle a b = (flt a b \<or> feq a b)"

definition fge :: "fl \<Rightarrow> fl \<Rightarrow> bool" where
  "fge a b = fle b a"

definition isna :: "fl \<Rightarrow> bool" where
  "isna a = (a = NaN)"

definition fabs :: "fl \<Rightarrow> fl" where
  "fabs a = (if flt a (Fin 0) then fneg a else a)"

section \<open>Series primitives of pandas\<close>

text \<open>
  A series is the list of its values in calendar order; every series of one run lives on
  the same calendar, so positions stand for dates.
\<close>

type_synonym series = "fl list"

definition shift :: "nat \<Rightarrow> series \<Rightarrow> series" where
  "shift k s = take (length s) (replicate k NaN @ s)"

definition diff :: "nat \<Rightarrow> series \<Rightarrow> series" where
  "diff k s = map2 fsub s (shift k s)"

text \<open>\<open>Series.clip\<close>: NaN stays NaN.\<close>

definition clip_lower :: "fl \<Rightarrow> series \<Rightarrow> series" where
  "clip_lower lo s = map (\<lambda>x. if flt x lo then lo else x) s"

definition clip_upper :: "fl \<Rightarrow> series \<Rightarrow> series" where
  "clip_upper hi s = map (\<lambda>x. if fgt x hi then hi else x) s"

definition clip :: "fl \<Rightarrow> fl \<Rightarrow> series \<Rightarrow> series" where
  "clip lo hi s = clip_upper hi (clip_lower lo s)"

text \<open>\<open>Series.replace(a, b)\<close>: the values equal to \<open>a\<close> become \<open>b\<close>.\<close>

definition replace :: "fl \<Rightarrow> fl \<Rightarrow> series \<Rightarrow> series" where
  "replace a b s = map (\<lambda>x. if feq x a then b else x) s"

text \<open>
  The window operations of pandas (\<open>ewm\<close> and \<open>rolling\<close>) first turn the infinities of
  their input into NaN.
\<close>

definition prep_values :: "series \<Rightarrow> series" where
  "prep_values s = map (\<lambda>x. if x = PInf \<or> x = NInf then NaN else x) s"

text \<open>
  The exponentially weighted mean, as pandas computes it (\<open>ignore_na=False\<close>): the state
  of the loop is the running mean \<open>weighted\<close>, the weight \<open>old_wt\<close> of the history and the
  number \<open>nobs\<close> of observations seen; \<open>alpha = 1 / (1 + com)\<close>, and a value is emitted
  once \<open>min_periods\<close> observations exist.
\<close>

record ewm_state =
  weighted :: fl
  old_wt :: real
  nobs :: nat

definition ewm_step :: "real \<Rightarrow> bool \<Rightarrow> ewm_state \<Rightarrow> fl \<Rightarrow> ewm_state" where
  "ewm_step alpha adjust st cur =
     (let is_obs = \<not> isna cur;
          n = nobs st + (if is_obs then 1 else 0);
          new_wt = (if adjust then 1 else alpha)
      in if \<not> isna (weighted st) then
           (let ow = old_wt st * (1 - alpha) in
            if is_obs then
              \<lparr>weighted = (if weighted st \<noteq> cur
                            then fdiv (fadd (fmul (Fin ow) (weighted st)) (fmul (Fin new_wt) cur))
                                      (Fin (ow + new_wt))
                            else weighted st),
               old_wt = (if adjust then ow + new_wt else 1),
               nobs = n\<rparr>
            else \<lparr>weighted = weighted st, old_wt = ow, nobs = n\<rparr>)
         else if is_obs then \<lparr>weighted = cur, old_wt = old_wt st, nobs = n\<rparr>
         else \<lparr>weighted = weighted st, old_wt = old_wt st, nobs = n\<rparr>)"

definition ewm_out :: "nat \<Rightarrow> ewm_state \<Rightarrow> fl" where
  "ewm_out minp st = (if nobs st \<ge> minp then weighted st else NaN)"

fun ewm_loop :: "real \<Rightarrow> bool \<Rightarrow> nat \<Rightarrow> ewm_state \<Rightarrow> series \<Rightarrow> series" where
  "ewm_loop alpha adjust minp st [] = []"
| "ewm_loop alpha adjust minp st (cur # rest) =
     (let st' = ewm_step alpha adjust st cur
      in ewm_out minp st' # ewm_loop alpha adjust minp st' rest)"

definition ewm_mean :: "real \<Rightarrow> bool \<Rightarrow> nat \<Rightarrow> series \<Rightarrow> series" where
  "ewm_mean alpha adjust minp s =
     (case prep_values s of [] \<Rightarrow> []
      | x # rest \<Rightarrow>
          (let st = \<lparr>weighted = x, old_wt = 1, nobs = (if isna x then 0 else 1)\<rparr>
           in ewm_out minp st # ewm_loop alpha adjust minp st rest))"

section \<open>Indicator library\<close>

subsection \<open>Relative strength index\<close>

text \<open>
  \<open>rsi(s, n=14)\<close>: \<open>d = s.diff()\<close>, the gains \<open>g\<close> and losses \<open>l\<close> are smoothed with
  \<open>ewm(com=n-1, min_periods=n)\<close>, and the index is \<open>100 - 100/(1 + g/l.replace(0, nan))\<close>.
\<close>

definition rsi_gain :: "nat \<Rightarrow> series \<Rightarrow> series" where
  "rsi_gain n s = ewm_mean (1 / (1 + (real n - 1))) True n (clip_lower (Fin 0) (diff 1 s))"

definition rsi_loss :: "nat \<Rightarrow> series \<Rightarrow> series" where
  "rsi_loss n s =
     ewm_mean (1 / (1 + (real n - 1))) True n (map fneg (clip_upper (Fin 0) (diff 1 s)))"

definition rsi_n :: "nat \<Rightarrow> series \<Rightarrow> series" where
  "rsi_n n s =
     map2 (\<lambda>g l. fsub (Fin 100) (fdiv (Fin 100) (fadd (Fin 1) (fdiv g l))))
          (rsi_gain n s) (replace (Fin 0) NaN (rsi_loss n s))"

definition rsi :: "series \<Rightarrow> series" where
  "rsi s = rsi_n 14 s"

subsection \<open>Volatility regime\<close>

text \<open>
  \<open>pd.cut(v, bins, labels)\<close> with its default \<open>right=True\<close>: the position of a value is
  \<open>bins.searchsorted(x, side='left')\<close>, the number of edges strictly below it; position 0,
  position \<open>len(bins)\<close> and NaN give no label, position \<open>k\<close> gives \<open>labels[k-1]\<close>. The result
  is a nullable integer (\<open>Int64\<close>): \<open>None\<close> is the missing bucket.
\<close>

definition searchsorted_left :: "fl list \<Rightarrow> fl \<Rightarrow> nat" where
  "searchsorted_left bins x = length (takeWhile (\<lambda>b. flt b x) bins)"

definition cut1 :: "fl list \<Rightarrow> int list \<Rightarrow> fl \<Rightarrow> int option" where
  "cut1 bins labels x =
     (let k = searchsorted_left bins x
      in if isna x \<or> k = length bins \<or> k = 0 then None else Some (labels ! (k - 1)))"

definition vol_bins :: "fl list" where
  "vol_bins = [NInf, Fin 12, Fin 15, Fin 20, Fin 25, Fin 35, PInf]"

definition vol_labels :: "int list" where
  "vol_labels = [1, 2, 3, 4, 5, 6]"

definition vol_regime :: "series \<Rightarrow> int option list" where
  "vol_regime v = map (cut1 vol_bins vol_labels) v"

subsection \<open>Term-structure state\<close>

text \<open>
  \<open>s = pd.Series(0, index)\<close>, then two masked assignments in this order:
  \<open>s[(r9d<=1)&(rvx3m<=1)] = 1\<close> and \<open>s[(r9d>1)&(rvx3m>1)] = -1\<close>.
\<close>

definition mask_assign :: "int list \<Rightarrow> bool list \<Rightarrow> int \<Rightarrow> int list" where
  "mask_assign s m v = map2 (\<lambda>x b. if b then v else x) s m"

definition term_state :: "series \<Rightarrow> series \<Rightarrow> int list" where
  "term_state r9d rvx3m =
     (let s0 = replicate (length r9d) 0;
          s1 = mask_assign s0 (map2 (\<lambda>a b. fle a (Fin 1) \<and> fle b (Fin 1)) r9d rvx3m) 1;
          s2 = mask_assign s1 (map2 (\<lambda>a b. fgt a (Fin 1) \<and> fgt b (Fin 1)) r9d rvx3m) (- 1)
      in s2)"

subsection \<open>Consecutive-return streak\<close>

text \<open>The body of the loop of \<open>consec\<close>: the new streak from the old one and the return.\<close>

definition consec_step :: "int \<Rightarrow> fl \<Rightarrow> int" where
  "consec_step streak r =
     (if isna r then 0
      else if fgt r (Fin 0) then max (streak + 1) 1
      else if flt r (Fin 0) then min (streak - 1) (- 1)
      else 0)"

fun consec_loop :: "int \<Rightarrow> series \<Rightarrow> int list" where
  "consec_loop streak [] = []"
| "consec_loop streak (r # rest) =
     (let streak' = consec_step streak r in streak' # consec_loop streak' rest)"

definition consec :: "series \<Rightarrow> int list" where
  "consec ret = consec_loop 0 ret"


text \<open>
  Rolling windows: the window of width \<open>w\<close> at position \<open>i\<close> holds the values at the
  positions \<open>i-w+1 .. i\<close> that exist; a statistic is emitted when the window holds at
  least \<open>minp\<close> observations (non-NaN values).
\<close>

definition window :: "nat \<Rightarrow> series \<Rightarrow> nat \<Rightarrow> series" where
  "window w s i = drop (Suc i - w) (take (Suc i) s)"

definition observations :: "series \<Rightarrow> series" where
  "observations win = filter (\<lambda>x. \<not> isna x) win"

definition rolling :: "nat \<Rightarrow> nat \<Rightarrow> (series \<Rightarrow> fl \<Rightarrow> fl) \<Rightarrow> series \<Rightarrow> series" where
  "rolling w minp stat s =
     (let v = prep_values s
      in map (\<lambda>i. let obs = observations (window w v i)
                   in if length obs \<ge> minp then stat obs (v ! i) else NaN) [0..<length v])"

definition fsum :: "series \<Rightarrow> fl" where
  "fsum xs = foldl fadd (Fin 0) xs"

definition fmean :: "series \<Rightarrow> fl" where
  "fmean xs = fdiv (fsum xs) (Fin (real (length xs)))"

fun fsqrt :: "fl \<Rightarrow> fl" where
  "fsqrt (Fin x) = (if x < 0 then NaN else Fin (sqrt x))"
| "fsqrt PInf = PInf"
| "fsqrt _ = NaN"

text \<open>The sample standard deviation (\<open>ddof=1\<close>) of the observations of a window.\<close>

definition fstd :: "series \<Rightarrow> fl" where
  "fstd xs =
     (let m = fmean xs
      in fsqrt (fdiv (fsum (map (\<lambda>x. fmul (fsub x m) (fsub x m)) xs))
                     (Fin (real (length xs) - 1))))"

definition rolling_mean :: "nat \<Rightarrow> series \<Rightarrow> series" where
  "rolling_mean w s = rolling w w (\<lambda>obs cur. fmean obs) s"

definition rolling_std :: "nat \<Rightarrow> series \<Rightarrow> series" where
  "rolling_std w s = rolling w w (\<lambda>obs cur. fstd obs) s"

text \<open>
  \<open>rolling(w, min_periods).rank(pct=True)\<close>: the average rank of the current value among
  the observations of its window, over their number; NaN for a NaN value.
\<close>

definition rank_pct :: "series \<Rightarrow> fl \<Rightarrow> fl" where
  "rank_pct obs cur =
     (if isna cur then NaN
      else (let rank_min = length (filter (\<lambda>x. flt x cur) obs) + 1;
                rank_max = length (filter (\<lambda>x. fle x cur) obs)
            in Fin ((real rank_min + real rank_max) / 2 / real (length obs))))"

definition rolling_rank_pct :: "nat \<Rightarrow> nat \<Rightarrow> series \<Rightarrow> series" where
  "rolling_rank_pct w minp s = rolling w minp rank_pct s"

text \<open>\<open>Series.ffill\<close> and \<open>Series.pct_change(k)\<close> (with its default fill method \<open>pad\<close>).\<close>

fun ffill_from :: "fl \<Rightarrow> series \<Rightarrow> series" where
  "ffill_from prev [] = []"
| "ffill_from prev (x # xs) = (if isna x then prev # ffill_from prev xs else x # ffill_from x xs)"

definition ffill :: "series \<Rightarrow> series" where
  "ffill s = ffill_from NaN s"

definition pct_change :: "nat \<Rightarrow> series \<Rightarrow> series" where
  "pct_change k s = (let f = ffill s in map (\<lambda>q. fsub q (Fin 1)) (map2 fdiv f (shift k f)))"

text \<open>Elementwise arithmetic of two series, and of a series with a number.\<close>

definition ssub :: "series \<Rightarrow> series \<Rightarrow> series" where
  "ssub a b = map2 fsub a b"

definition sdiv :: "series \<Rightarrow> series \<Rightarrow> series" where
  "sdiv a b = map2 fdiv a b"

definition sadd :: "series \<Rightarrow> series \<Rightarrow> series" where
  "sadd a b = map2 fadd a b"

definition scale :: "real \<Rightarrow> series \<Rightarrow> series" where
  "scale k a = map (\<lambda>x. fmul x (Fin k)) a"

definition minus_const :: "real \<Rightarrow> series \<Rightarrow> series" where
  "minus_const k a = map (\<lambda>x. fsub x (Fin k)) a"

subsection \<open>Average true range, moving averages, Bollinger position\<close>

text \<open>The row-wise maximum of \<open>DataFrame.max(axis=1)\<close> skips NaN.\<close>

definition fmax_skipna :: "fl \<Rightarrow> fl \<Rightarrow> fl" where
  "fmax_skipna a b = (if isna a then b else if isna b then a else if flt a b then b else a)"

definition atr_n :: "nat \<Rightarrow> series \<Rightarrow> series \<Rightarrow> series \<Rightarrow> series" where
  "atr_n n h l c =
     (let pc = shift 1 c;
          tr = map (\<lambda>(x, y, z). fmax_skipna (fmax_skipna x y) z)
                   (zip (ssub h l) (zip (map fabs (ssub h pc)) (map fabs (ssub l pc))))
      in ewm_mean (1 / (1 + (real n - 1))) True n tr)"

definition atr :: "series \<Rightarrow> series \<Rightarrow> series \<Rightarrow> series" where
  "atr h l c = atr_n 14 h l c"

text \<open>\<open>ewm(span=n, adjust=False)\<close>: \<open>com = (n-1)/2\<close>, no minimum number of observations.\<close>

definition ema :: "series \<Rightarrow> nat \<Rightarrow> series" where
  "ema s n = ewm_mean (1 / (1 + (real n - 1) / 2)) False 0 s"

definition sma :: "series \<Rightarrow> nat \<Rightarrow> series" where
  "sma s n = rolling_mean n s"

definition bollinger_w :: "nat \<Rightarrow> real \<Rightarrow> series \<Rightarrow> series" where
  "bollinger_w w ns c =
     (let m = rolling_mean w c; s = rolling_std w c
      in clip (Fin 0) (Fin 1)
           (sdiv (sadd (ssub c m) (scale ns s)) (scale (2 * ns) s)))"

definition bollinger :: "series \<Rightarrow> series" where
  "bollinger c = bollinger_w 20 2 c"

subsection \<open>Trend score\<close>

datatype error =
    RuntimeError string
  | DownloadError
  | IntCastingNaNError
  | FileNotFoundError
  | IndexError

text \<open>\<open>np.sign\<close> of a float: NaN for NaN.\<close>

fun np_sign :: "fl \<Rightarrow> fl" where
  "np_sign NaN = NaN"
| "np_sign a = Fin (real_of_int (fsgn a))"

text \<open>Rounding to the nearest integer, a half to the even neighbour.\<close>

definition round_half_even :: "real \<Rightarrow> int" where
  "round_half_even x =
     (let f = \<lfloor>x\<rfloor>; d = x - of_int f
      in if d < 1 / 2 then f else if d > 1 / 2 then f + 1 else if even f then f else f + 1)"

text \<open>\<open>Series.round().astype(int)\<close> raises on a NaN or an infinity.\<close>

fun astype_int1 :: "fl \<Rightarrow> error + int" where
  "astype_int1 (Fin x) = Inr (round_half_even x)"
| "astype_int1 _ = Inl IntCastingNaNError"

fun astype_int :: "series \<Rightarrow> error + int list" where
  "astype_int [] = Inr []"
| "astype_int (x # xs) =
     (case astype_int1 x of Inl e \<Rightarrow> Inl e
      | Inr v \<Rightarrow> (case astype_int xs of Inl e \<Rightarrow> Inl e | Inr vs \<Rightarrow> Inr (v # vs)))"

definition trend_sc :: "series \<Rightarrow> series" where
  "trend_sc c =
     (let e21 = ema c 21; e50 = ema c 50; e200 = ema c 200;
          slope = scale 100 (sdiv (diff 5 e21) (shift 5 e21));
          sc = sadd (sadd (map np_sign (ssub c e21)) (map np_sign (ssub c e50)))
                    (map np_sign (ssub c e200))
      in map2 (\<lambda>x sl. fadd x (Fin (of_int ((if fgt sl (Fin (1 / 2)) then 1 else 0)
                                           + (if flt sl (Fin (- (1 / 2))) then - 1 else 0)))))
              sc slope)"

definition trend_score :: "series \<Rightarrow> error + int list" where
  "trend_score c =
     (case astype_int (trend_sc c) of Inl e \<Rightarrow> Inl e
      | Inr vs \<Rightarrow> Inr (map (\<lambda>v. min 5 (max (- 5) v)) vs))"

definition vix_pct_w :: "nat \<Rightarrow> series \<Rightarrow> series" where
  "vix_pct_w w v = scale 100 (rolling_rank_pct w 20 v)"

definition vix_pct :: "series \<Rightarrow> series" where
  "vix_pct v = vix_pct_w 252 v"

section \<open>Calendar dates\<close>

text \<open>
  An index entry is a timestamp normalised to midnight, that is a calendar date. The
  ordinal, the weekday (Monday is 0) and the month lengths are those of Python's
  \<open>datetime\<close>; adding a number of days steps through the calendar.
\<close>

record date =
  year :: int
  month :: int
  day :: int

definition is_leap :: "int \<Rightarrow> bool" where
  "is_leap y = (y mod 4 = 0 \<and> (y mod 100 \<noteq> 0 \<or> y mod 400 = 0))"

definition days_in_month :: "int \<Rightarrow> int \<Rightarrow> int" where
  "days_in_month y m =
     (if m = 2 then (if is_leap y then 29 else 28)
      else if m = 4 \<or> m = 6 \<or> m = 9 \<or> m = 11 then 30 else 31)"

definition days_before_year :: "int \<Rightarrow> int" where
  "days_before_year y = (y - 1) * 365 + (y - 1) div 4 - (y - 1) div 100 + (y - 1) div 400"

definition days_before_month :: "int \<Rightarrow> int \<Rightarrow> int" where
  "days_before_month y m =
     [0, 0, 31, 59, 90, 120, 151, 181, 212, 243, 273, 304, 334] ! nat m
     + (if m > 2 \<and> is_leap y then 1 else 0)"

definition toordinal :: "date \<Rightarrow> int" where
  "toordinal dt = days_before_year (year dt) + days_before_month (year dt) (month dt) + day dt"

definition weekday :: "date \<Rightarrow> int" where
  "weekday dt = (toordinal dt + 6) mod 7"

definition valid_date :: "date \<Rightarrow> bool" where
  "valid_date dt =
     (1 \<le> year dt \<and> year dt \<le> 9999 \<and> 1 \<le> month dt \<and> month dt \<le> 12 \<and> 1 \<le> day dt
      \<and> day dt \<le> days_in_month (year dt) (month dt))"

definition next_day :: "date \<Rightarrow> date" where
  "next_day dt =
     (if day dt < days_in_month (year dt) (month dt) then dt\<lparr>day := day dt + 1\<rparr>
      else if month dt < 12 then dt\<lparr>month := month dt + 1, day := 1\<rparr>
      else \<lparr>year = year dt + 1, month = 1, day = 1\<rparr>)"

definition prev_day :: "date \<Rightarrow> date" where
  "prev_day dt =
     (if day dt > 1 then dt\<lparr>day := day dt - 1\<rparr>
      else if month dt > 1
        then dt\<lparr>month := month dt - 1, day := days_in_month (year dt) (month dt - 1)\<rparr>
      else \<lparr>year = year dt - 1, month = 12, day = 31\<rparr>)"

fun add_days :: "date \<Rightarrow> nat \<Rightarrow> date" where
  "add_days dt 0 = dt"
| "add_days dt (Suc k) = add_days (next_day dt) k"

fun sub_days :: "date \<Rightarrow> nat \<Rightarrow> date" where
  "sub_days dt 0 = dt"
| "sub_days dt (Suc k) = sub_days (prev_day dt) k"

definition date_ge :: "date \<Rightarrow> date \<Rightarrow> bool" where
  "date_ge a b =
     (year a > year b \<or> (year a = year b \<and> (month a > month b
        \<or> (month a = month b \<and> day a \<ge> day b))))"

subsection \<open>Options-expiration flag\<close>

text \<open>
  The body of the loop of \<open>is_opex\<close>: \<open>f\<close> is the first of the month, \<open>ff\<close> the first
  Friday, \<open>tf\<close> two weeks later.
\<close>

definition is_opex1 :: "date \<Rightarrow> int" where
  "is_opex1 dt =
     (let f = dt\<lparr>day := 1\<rparr>;
          ff = add_days f (nat ((4 - weekday f) mod 7));
          tf = add_days ff 14
      in if dt = tf then 1 else 0)"

definition is_opex :: "date list \<Rightarrow> int list" where
  "is_opex idx = map is_opex1 idx"

text \<open>
  The date is the third Friday of its month: it is a Friday, and exactly two earlier days
  of the same month are Fridays.
\<close>

definition third_friday :: "date \<Rightarrow> bool" where
  "third_friday dt =
     (weekday dt = 4
      \<and> length (filter (\<lambda>d. weekday (dt\<lparr>day := d\<rparr>) = 4) [1..day dt - 1]) = 2)"


section \<open>Series source\<close>

text \<open>
  A downloaded frame: its index of dates and the four price columns, all of one length.
  The external service \<open>yf.download\<close> answers a ticker and a date range with a frame, or
  raises (\<open>None\<close>).
\<close>

record frame =
  index :: "date list"
  Open :: series
  High :: series
  Low :: series
  Close :: series

type_synonym source = "string \<Rightarrow> date \<Rightarrow> date \<Rightarrow> frame option"

definition TICKER_SPX :: string where "TICKER_SPX = ''^GSPC''"
definition TICKER_VIX :: string where "TICKER_VIX = ''^VIX''"
definition TICKER_VIX9D :: string where "TICKER_VIX9D = ''^VIX9D''"
definition TICKER_VIX3M :: string where "TICKER_VIX3M = ''^VIX3M''"

definition download :: "source \<Rightarrow> string \<Rightarrow> date \<Rightarrow> date \<Rightarrow> error + frame" where
  "download src ticker start stop =
     (case src ticker start stop of
        None \<Rightarrow> Inl DownloadError
      | Some df \<Rightarrow> if index df = [] then Inl (RuntimeError (''No data for '' @ ticker)) else Inr df)"

text \<open>
  \<open>reindex(idx)\<close>: the value of each date of \<open>idx\<close> is looked up in the source index; a
  date the source does not have gives NaN. The dates of a source frame are distinct, as
  the trading days of a price series are.
\<close>

definition reindex_series :: "date list \<Rightarrow> series \<Rightarrow> date list \<Rightarrow> series" where
  "reindex_series src vals idx =
     map (\<lambda>d. case map_of (zip src vals) d of None \<Rightarrow> NaN | Some v \<Rightarrow> v) idx"

definition reindex :: "frame \<Rightarrow> date list \<Rightarrow> frame" where
  "reindex f idx =
     \<lparr>index = idx,
      Open = reindex_series (index f) (Open f) idx,
      High = reindex_series (index f) (High f) idx,
      Low = reindex_series (index f) (Low f) idx,
      Close = reindex_series (index f) (Close f) idx\<rparr>"

text \<open>
  The frame substituted for an unavailable instrument,
  \<open>pd.DataFrame(index=spx.index, columns=["Open","Close"], dtype=float)\<close>: every value is
  NaN. It has no High and Low columns; those of the two secondary instruments are never read.
\<close>

definition nan_frame :: "date list \<Rightarrow> frame" where
  "nan_frame idx =
     \<lparr>index = idx,
      Open = replicate (length idx) NaN,
      High = replicate (length idx) NaN,
      Low = replicate (length idx) NaN,
      Close = replicate (length idx) NaN\<rparr>"

section \<open>Feature assembler\<close>

datatype column =
    FloatCol series
  | IntCol "int list"
  | Int64Col "int option list"
  | StrCol "string list"

text \<open>The table under construction: its index and its columns in the order of assignment.\<close>

record dataframe =
  df_index :: "date list"
  df_columns :: "(string \<times> column) list"

definition digit :: "int \<Rightarrow> char" where
  "digit k = char_of (48 + k)"

text \<open>\<open>strftime("%Y-%m-%d")\<close>, for the years 0 to 9999.\<close>

definition strftime :: "date \<Rightarrow> string" where
  "strftime dt =
     [digit (year dt div 1000 mod 10), digit (year dt div 100 mod 10),
      digit (year dt div 10 mod 10), digit (year dt mod 10), CHR ''-'',
      digit (month dt div 10 mod 10), digit (month dt mod 10), CHR ''-'',
      digit (day dt div 10 mod 10), digit (day dt mod 10)]"

text \<open>
  \<open>((Gap_Pct>0)&(low<=Prior_Close)|(Gap_Pct<0)&(high>=Prior_Close)).astype(int)\<close>;
  \<open>&\<close> binds tighter than \<open>|\<close>.
\<close>

definition gap_filled :: "series \<Rightarrow> series \<Rightarrow> series \<Rightarrow> series \<Rightarrow> int list" where
  "gap_filled gap low high prior =
     map (\<lambda>(g, lo, hi, pc).
            if (fgt g (Fin 0) \<and> fle lo pc) \<or> (flt g (Fin 0) \<and> fge hi pc) then 1 else 0)
         (zip gap (zip low (zip high prior)))"

definition placeholders :: "string list" where
  "placeholders =
     [''High_Time'', ''Low_Time'', ''High_Before_Low'',
      ''High_In_First_Hour'', ''Low_In_First_Hour'', ''High_In_Last_Hour'',
      ''Low_In_Last_Hour'', ''Reversal_Type'', ''High_Low_Spread'',
      ''Early_Extreme'', ''Late_Extreme'']"

text \<open>
  The assignments of \<open>build\<close> to the table, in their order (lines 101 to 147). The time
  stamp of a date, 4 PM in New York as seconds since the epoch, comes from the time-zone
  database and is a parameter; \<open>trend\<close> is the result of \<open>trend_score\<close>. Both the
  downloaded and the substituted frame of a secondary instrument have the columns Open
  and Close, so the default of \<open>.get\<close> is never taken.
\<close>

definition features ::
  "(date \<Rightarrow> int) \<Rightarrow> frame \<Rightarrow> frame \<Rightarrow> frame \<Rightarrow> frame \<Rightarrow> int list \<Rightarrow> dataframe" where
  "features eastern spx vix vix9d vix3m trend =
     (let idx = index spx;
          n = length idx;
          Prior_Close = shift 1 (Close spx);
          open = Open spx; high = High spx; low = Low spx; close = Close spx;
          Gap_Pct = scale 100 (sdiv (ssub open Prior_Close) Prior_Close);
          Total_Return_Pct = scale 100 (sdiv (ssub close Prior_Close) Prior_Close);
          a = atr (High spx) (Low spx) (Close spx);
          VIX_Close = Close vix;
          VIX9D_Close = reindex_series (index vix9d) (Close vix9d) idx;
          VIX3M_Close = reindex_series (index vix3m) (Close vix3m) idx;
          VIX9D_VIX_Ratio = sdiv VIX9D_Close VIX_Close;
          VIX_VIX3M_Ratio = sdiv VIX_Close VIX3M_Close
      in \<lparr>df_index = idx,
          df_columns =
            [(''ticker'', StrCol (replicate n ''SPX'')),
             (''date'', StrCol (map strftime idx)),
             (''time'', IntCol (map eastern idx)),
             (''Prior_Close'', FloatCol Prior_Close),
             (''open'', FloatCol open),
             (''high'', FloatCol high),
             (''low'', FloatCol low),
             (''close'', FloatCol close),
             (''Intraday_High'', FloatCol (High spx)),
             (''Intraday_Low'', FloatCol (Low spx)),
             (''Gap_Pct'', FloatCol Gap_Pct),
             (''Intraday_Range_Pct'', FloatCol (scale 100 (sdiv (ssub high low) open))),
             (''Intraday_Return_Pct'', FloatCol (scale 100 (sdiv (ssub close open) open))),
             (''Total_Return_Pct'', FloatCol Total_Return_Pct),
             (''Close_Position_In_Range'',
                FloatCol (clip (Fin 0) (Fin 1) (sdiv (ssub close low) (ssub high low)))),
             (''Gap_Filled'', IntCol (gap_filled Gap_Pct low high Prior_Close)),
             (''Return_5D'', FloatCol (scale 100 (pct_change 5 (Close spx)))),
             (''Return_20D'', FloatCol (scale 100 (pct_change 20 (Close spx)))),
             (''Prev_Return_Pct'', FloatCol (shift 1 Total_Return_Pct)),
             (''Consecutive_Days'', IntCol (consec Total_Return_Pct)),
             (''RSI_14'', FloatCol (rsi (Close spx))),
             (''ATR_Pct'', FloatCol (scale 100 (sdiv a (Close spx)))),
             (''Price_vs_EMA21_Pct'',
                FloatCol (scale 100 (minus_const 1 (sdiv (Close spx) (ema (Close spx) 21))))),
             (''Price_vs_SMA50_Pct'',
                FloatCol (scale 100 (minus_const 1 (sdiv (Close spx) (sma (Close spx) 50))))),
             (''BB_Position'', FloatCol (bollinger (Close spx))),
             (''Trend_Score'', IntCol trend),
             (''Day_of_Week'', IntCol (map (\<lambda>d. weekday d + 2) idx)),
             (''Month'', IntCol (map month idx)),
             (''Is_Opex'', IntCol (is_opex idx)),
             (''VIX_Open'', FloatCol (Open vix)),
             (''VIX_Close'', FloatCol VIX_Close),
             (''VIX_High'', FloatCol (High vix)),
             (''VIX_Low'', FloatCol (Low vix)),
             (''VIX_Change_Pct'', FloatCol (scale 100 (pct_change 1 (Close vix)))),
             (''VIX_Gap_Pct'',
                FloatCol (scale 100 (sdiv (ssub (Open vix) (shift 1 (Close vix)))
                                          (shift 1 (Close vix))))),
             (''VIX_Spike_Pct'',
                FloatCol (scale 100 (sdiv (ssub (High vix) (Open vix)) (Open vix)))),
             (''VIX_Percentile'', FloatCol (vix_pct (Close vix))),
             (''VIX9D_Open'', FloatCol (reindex_series (index vix9d) (Open vix9d) idx)),
             (''VIX9D_Close'', FloatCol VIX9D_Close),
             (''VIX9D_Change_Pct'', FloatCol (scale 100 (pct_change 1 VIX9D_Close))),
             (''VIX3M_Open'', FloatCol (reindex_series (index vix3m) (Open vix3m) idx)),
             (''VIX3M_Close'', FloatCol VIX3M_Close),
             (''VIX3M_Change_Pct'', FloatCol (scale 100 (pct_change 1 VIX3M_Close))),
             (''VIX9D_VIX_Ratio'', FloatCol VIX9D_VIX_Ratio),
             (''VIX_VIX3M_Ratio'', FloatCol VIX_VIX3M_Ratio),
             (''Vol_Regime'', Int64Col (vol_regime VIX_Close)),
             (''Term_Structure_State'', IntCol (term_state VIX9D_VIX_Ratio VIX_VIX3M_Ratio))]
            @ map (\<lambda>c. (c, FloatCol (replicate n NaN))) placeholders\<rparr>)"

text \<open>\<open>df[df.index >= start]\<close>: the rows of the dates from \<open>start\<close> on.\<close>

definition filter_mask :: "bool list \<Rightarrow> 'a list \<Rightarrow> 'a list" where
  "filter_mask keep xs = map fst (filter snd (zip xs keep))"

fun col_filter :: "bool list \<Rightarrow> column \<Rightarrow> column" where
  "col_filter keep (FloatCol s) = FloatCol (filter_mask keep s)"
| "col_filter keep (IntCol s) = IntCol (filter_mask keep s)"
| "col_filter keep (Int64Col s) = Int64Col (filter_mask keep s)"
| "col_filter keep (StrCol s) = StrCol (filter_mask keep s)"

definition trim :: "date \<Rightarrow> dataframe \<Rightarrow> dataframe" where
  "trim start df =
     (let keep = map (\<lambda>d. date_ge d start) (df_index df)
      in \<lparr>df_index = filter_mask keep (df_index df),
          df_columns = map (\<lambda>(name, c). (name, col_filter keep c)) (df_columns df)\<rparr>)"

definition cols :: "string list" where
  "cols =
     [''time'', ''ticker'', ''date'', ''Prior_Close'',
      ''open'', ''high'', ''low'', ''close'',
      ''Gap_Pct'', ''Intraday_Range_Pct'', ''Intraday_Return_Pct'', ''Total_Return_Pct'',
      ''Close_Position_In_Range'', ''Gap_Filled'', ''VIX_Open'', ''VIX_Close'',
      ''VIX_Change_Pct'', ''VIX_Spike_Pct'', ''VIX_Percentile'', ''Vol_Regime'',
      ''VIX9D_Open'', ''VIX9D_Close'', ''VIX9D_Change_Pct'', ''VIX3M_Open'',
      ''VIX3M_Close'', ''VIX3M_Change_Pct'', ''VIX9D_VIX_Ratio'', ''VIX_VIX3M_Ratio'',
      ''Term_Structure_State'', ''ATR_Pct'', ''RSI_14'', ''Price_vs_EMA21_Pct'',
      ''Price_vs_SMA50_Pct'', ''Trend_Score'', ''BB_Position'', ''Return_5D'',
      ''Return_20D'', ''Consecutive_Days'', ''Day_of_Week'', ''Month'',
      ''Is_Opex'', ''Prev_Return_Pct'', ''High_Time'', ''Low_Time'',
      ''High_Before_Low'', ''High_In_First_Hour'', ''Low_In_First_Hour'', ''High_In_Last_Hour'',
      ''Low_In_Last_Hour'', ''Reversal_Type'', ''High_Low_Spread'', ''Early_Extreme'',
      ''Late_Extreme'', ''Intraday_High'', ''Intraday_Low'', ''VIX_High'',
      ''VIX_Low'', ''VIX_Gap_Pct'']"

text \<open>\<open>df.reindex(columns=cols)\<close>: the named columns in this order, NaN for an unknown name.\<close>

definition reindex_columns :: "string list \<Rightarrow> dataframe \<Rightarrow> dataframe" where
  "reindex_columns names df =
     df\<lparr>df_columns :=
          map (\<lambda>c. (c, case map_of (df_columns df) c of
                         Some col \<Rightarrow> col
                       | None \<Rightarrow> FloatCol (replicate (length (df_index df)) NaN))) names\<rparr>"

section \<open>Sink\<close>

text \<open>
  The written file: the header and the rows of cells (\<open>index=False\<close>); the formatting of
  a number with six decimals is not modelled. A NaN and a missing integer print as the
  empty string.
\<close>

datatype cell = CFloat fl | CInt int | CInt64 "int option" | CStr string

fun col_cells :: "column \<Rightarrow> cell list" where
  "col_cells (FloatCol s) = map CFloat s"
| "col_cells (IntCol s) = map CInt s"
| "col_cells (Int64Col s) = map CInt64 s"
| "col_cells (StrCol s) = map CStr s"

definition cell_empty :: "cell \<Rightarrow> bool" where
  "cell_empty c = (c = CFloat NaN \<or> c = CInt64 None)"

type_synonym csv = "string list \<times> cell list list"

definition to_csv :: "dataframe \<Rightarrow> csv" where
  "to_csv df =
     (map fst (df_columns df),
      map (\<lambda>i. map (\<lambda>(name, c). col_cells c ! i) (df_columns df)) [0..<length (df_index df)])"

text \<open>\<open>os.path.dirname\<close> of a POSIX path.\<close>

definition rstrip_slash :: "string \<Rightarrow> string" where
  "rstrip_slash p = rev (dropWhile (\<lambda>c. c = CHR ''/'') (rev p))"

definition dirname :: "string \<Rightarrow> string" where
  "dirname p =
     (let head = rev (dropWhile (\<lambda>c. c \<noteq> CHR ''/'') (rev p))
      in if head \<noteq> [] \<and> head \<noteq> replicate (length head) (CHR ''/'') then rstrip_slash head
         else head)"

section \<open>The run\<close>

text \<open>
  The environment of a run: the price service, the clock and the time-zone database.
\<close>

record env =
  yf :: source
  today :: date
  eastern :: "date \<Rightarrow> int"

text \<open>
  \<open>try: download(...) except: pd.DataFrame(index=spx.index, ...)\<close>: any failure of the
  download is caught and the all-NaN frame takes the place of the result.
\<close>

definition download_or_nan :: "source \<Rightarrow> string \<Rightarrow> date \<Rightarrow> date \<Rightarrow> date list \<Rightarrow> frame" where
  "download_or_nan src ticker start stop idx =
     (case download src ticker start stop of Inl err \<Rightarrow> nan_frame idx | Inr f \<Rightarrow> f)"

text \<open>
  The table of \<open>build\<close> up to the column selection (lines 86 to 162). A failure of the
  index or of the short-vol download ends the run; so does \<open>trend_score\<close> when it raises.
\<close>

definition build_table :: "env \<Rightarrow> date \<Rightarrow> error + dataframe" where
  "build_table e start =
     (let ws = sub_days start 400;
          stop = add_days (today e) 1
      in case download (yf e) TICKER_SPX ws stop of
           Inl err \<Rightarrow> Inl err
         | Inr spx \<Rightarrow>
             (case download (yf e) TICKER_VIX ws stop of
                Inl err \<Rightarrow> Inl err
              | Inr vix0 \<Rightarrow>
                  (let vix9d0 = download_or_nan (yf e) TICKER_VIX9D ws stop (index spx);
                       vix3m0 = download_or_nan (yf e) TICKER_VIX3M ws stop (index spx);
                       idx = index spx;
                       vix = reindex vix0 idx;
                       vix9d = reindex vix9d0 idx;
                       vix3m = reindex vix3m0 idx
                   in case trend_score (Close spx) of
                        Inl err \<Rightarrow> Inl err
                      | Inr trend \<Rightarrow>
                          Inr (reindex_columns cols
                                 (trim start (features (eastern e) spx vix vix9d vix3m trend))))))"

text \<open>
  The whole run on a file system (a map from paths to written files). The directory of
  the output is created first (\<open>os.makedirs\<close> raises on the empty path), the file is
  written, and the summary printed last reads the first row of the table.
\<close>

type_synonym fs = "string \<rightharpoonup> csv"

definition build :: "env \<Rightarrow> date \<Rightarrow> string \<Rightarrow> fs \<Rightarrow> (error + unit) \<times> fs" where
  "build e start output files =
     (case build_table e start of
        Inl err \<Rightarrow> (Inl err, files)
      | Inr df \<Rightarrow>
          if dirname output = [] then (Inl FileNotFoundError, files)
          else (let files' = files(output \<mapsto> to_csv df)
                in if df_index df = [] then (Inl IndexError, files') else (Inr (), files')))"


section \<open>Vocabulary of the properties\<close>

text \<open>The download of one instrument in a run that starts at \<open>start\<close>.\<close>

definition fetch :: "env \<Rightarrow> date \<Rightarrow> string \<Rightarrow> error + frame" where
  "fetch e start ticker = download (yf e) ticker (sub_days start 400) (add_days (today e) 1)"

text \<open>A frame of the price service has one value per date in each column.\<close>

definition well_formed :: "frame \<Rightarrow> bool" where
  "well_formed f =
     (length (Open f) = length (index f) \<and> length (High f) = length (index f)
      \<and> length (Low f) = length (index f) \<and> length (Close f) = length (index f))"

text \<open>Reading a column of a table by its name, as numbers, integers or cells.\<close>

definition column_of :: "dataframe \<Rightarrow> string \<Rightarrow> column option" where
  "column_of df name = map_of (df_columns df) name"

definition float_col :: "dataframe \<Rightarrow> string \<Rightarrow> series" where
  "float_col df name = (case column_of df name of Some (FloatCol s) \<Rightarrow> s | _ \<Rightarrow> [])"

definition int_col :: "dataframe \<Rightarrow> string \<Rightarrow> int list" where
  "int_col df name = (case column_of df name of Some (IntCol s) \<Rightarrow> s | _ \<Rightarrow> [])"

definition cells_of :: "dataframe \<Rightarrow> string \<Rightarrow> cell list" where
  "cells_of df name = (case column_of df name of Some c \<Rightarrow> col_cells c | None \<Rightarrow> [])"

text \<open>
  The positions of the calendar that the trimmed table keeps, in order: row \<open>k\<close> of the
  output is the calendar date at position \<open>kept start idx ! k\<close>.
\<close>

definition kept :: "date \<Rightarrow> date list \<Rightarrow> nat list" where
  "kept start idx = filter (\<lambda>i. date_ge (idx ! i) start) [0..<length idx]"

text \<open>
  The frame of a secondary instrument as the assembler reads it, and the table of a run
  whose two primary downloads gave \<open>spx\<close> and \<open>vix0\<close> and whose trend score is \<open>trend\<close>.
\<close>

definition secondary :: "env \<Rightarrow> date \<Rightarrow> string \<Rightarrow> date list \<Rightarrow> frame" where
  "secondary e start ticker idx =
     reindex (download_or_nan (yf e) ticker (sub_days start 400) (add_days (today e) 1) idx) idx"

definition assembled :: "env \<Rightarrow> date \<Rightarrow> frame \<Rightarrow> frame \<Rightarrow> int list \<Rightarrow> dataframe" where
  "assembled e start spx vix0 trend =
     reindex_columns cols
       (trim start
          (features (eastern e) spx (reindex vix0 (index spx))
             (secondary e start TICKER_VIX9D (index spx))
             (secondary e start TICKER_VIX3M (index spx)) trend))"

text \<open>A series without NaN and without infinities.\<close>

fun is_fin :: "fl \<Rightarrow> bool" where
  "is_fin (Fin x) = True"
| "is_fin _ = False"

definition all_fin :: "series \<Rightarrow> bool" where
  "all_fin s = list_all is_fin s"

text \<open>A series in which no value is below the one before it.\<close>

fun no_down_move :: "series \<Rightarrow> bool" where
  "no_down_move (x # y # rest) = (fle x y \<and> no_down_move (y # rest))"
| "no_down_move _ = True"

text \<open>
  The columns that hold nothing but the data of one secondary instrument, and all the
  columns that read a secondary instrument.
\<close>

definition instrument_columns :: "string \<Rightarrow> string list" where
  "instrument_columns ticker =
     (if ticker = TICKER_VIX9D
        then [''VIX9D_Open'', ''VIX9D_Close'', ''VIX9D_Change_Pct'', ''VIX9D_VIX_Ratio'']
      else if ticker = TICKER_VIX3M
        then [''VIX3M_Open'', ''VIX3M_Close'', ''VIX3M_Change_Pct'', ''VIX_VIX3M_Ratio'']
      else [])"

definition secondary_columns :: "string list" where
  "secondary_columns =
     instrument_columns TICKER_VIX9D @ instrument_columns TICKER_VIX3M
     @ [''Term_Structure_State'']"

section \<open>A sample run\<close>

text \<open>
  Three trading days of index prices, short-vol prices for the first two of them,
  three-month vol prices for all three, and no answer for the nine-day instrument. The
  time stamps of the sample ignore daylight saving.
\<close>

definition sample_dates :: "date list" where
  "sample_dates =
     [\<lparr>year = 2024, month = 1, day = 18\<rparr>, \<lparr>year = 2024, month = 1, day = 19\<rparr>,
      \<lparr>year = 2024, month = 1, day = 22\<rparr>]"

definition sample_spx :: frame where
  "sample_spx =
     \<lparr>index = sample_dates,
      Open = [Fin 100, Fin 102, Fin 101], High = [Fin 103, Fin 104, Fin 105],
      Low = [Fin 99, Fin 100, Fin 100], Close = [Fin 101, Fin 103, Fin 100]\<rparr>"

definition sample_vix :: frame where
  "sample_vix =
     \<lparr>index = take 2 sample_dates,
      Open = [Fin 14, Fin 15], High = [Fin 16, Fin 17],
      Low = [Fin 13, Fin 14], Close = [Fin 15, Fin 16]\<rparr>"

definition sample_vix3m :: frame where
  "sample_vix3m =
     \<lparr>index = sample_dates,
      Open = [Fin 14, Fin 15, Fin 16], High = [Fin 16, Fin 17, Fin 18],
      Low = [Fin 13, Fin 14, Fin 15], Close = [Fin 16, Fin 15, Fin 17]\<rparr>"

definition sample_env :: env where
  "sample_env =
     \<lparr>yf = (\<lambda>ticker a b.
              if ticker = TICKER_SPX then Some sample_spx
              else if ticker = TICKER_VIX then Some sample_vix
              else if ticker = TICKER_VIX3M then Some sample_vix3m
              else None),
      today = \<lparr>year = 2024, month = 1, day = 23\<rparr>,
      eastern = (\<lambda>d. (toordinal d - 719163) * 86400 + 75600)\<rparr>"

definition sample_start :: date where
  "sample_start = \<lparr>year = 2024, month = 1, day = 19\<rparr>"

text \<open>The same run with the two secondary instruments exchanged.\<close>

definition sample_env2 :: env where
  "sample_env2 =
     sample_env\<lparr>yf := (\<lambda>ticker a b.
              if ticker = TICKER_SPX then Some sample_spx
              else if ticker = TICKER_VIX then Some sample_vix
              else if ticker = TICKER_VIX9D then Some sample_vix3m
              else None)\<rparr>"

text \<open>Nine-day vol prices for the three days, and a run in which every instrument answers.\<close>

definition sample_vix9d :: frame where
  "sample_vix9d =
     \<lparr>index = sample_dates,
      Open = [Fin 13, Fin 16, Fin 15], High = [Fin 15, Fin 18, Fin 17],
      Low = [Fin 12, Fin 15, Fin 14], Close = [Fin 14, Fin 17, Fin 16]\<rparr>"

definition sample_env3 :: env where
  "sample_env3 =
     sample_env\<lparr>yf := (\<lambda>ticker a b.
              if ticker = TICKER_SPX then Some sample_spx
              else if ticker = TICKER_VIX then Some sample_vix
              else if ticker = TICKER_VIX9D then Some sample_vix9d
              else if ticker = TICKER_VIX3M then Some sample_vix3m
              else None)\<rparr>"

text \<open>A run in which the price service answers nothing.\<close>

definition offline_env :: env where
  "offline_env =
     \<lparr>yf = (\<lambda>ticker a b. None),
      today = \<lparr>year = 2024, month = 1, day = 23\<rparr>,
      eastern = (\<lambda>d. 0)\<rparr>"

section \<open>Properties of the indicator library\<close>

subsection \<open>Comparisons\<close>

lemma fle_not_fgt: "fle a b \<Longrightarrow> \<not> fgt a b"
  by (cases a; cases b) (auto simp: fle_def fgt_def feq_def)

lemma fcmp_NaN [simp]: "\<not> fle NaN b" "\<not> fgt NaN b" "\<not> fle a NaN" "\<not> fgt a NaN"
  by (cases a; cases b; simp add: fle_def fgt_def feq_def)+

lemma all_fin_nth: "all_fin s \<Longrightarrow> i < length s \<Longrightarrow> is_fin (s ! i)"
  by (simp add: all_fin_def list_all_length)

lemma all_finI: "(\<And>i. i < length s \<Longrightarrow> is_fin (s ! i)) \<Longrightarrow> all_fin s"
  by (simp add: all_fin_def list_all_length)

lemma is_fin_conv: "is_fin a \<longleftrightarrow> (\<exists>x. a = Fin x)"
  by (cases a) simp_all

lemma no_down_move_nth:
  "no_down_move s \<Longrightarrow> Suc j < length s \<Longrightarrow> fle (s ! j) (s ! Suc j)"
proof (induction s arbitrary: j rule: no_down_move.induct)
  case (1 x y rest)
  then show ?case by (cases j) simp_all
qed simp_all

subsection \<open>Consecutive-return streak\<close>

lemma consec_loop_length: "length (consec_loop st rs) = length rs"
  by (induction rs arbitrary: st) (simp_all add: Let_def)

text \<open>Each value of the streak is one step of the loop from the value before it.\<close>

lemma consec_loop_nth:
  "i < length rs \<Longrightarrow>
   consec_loop st rs ! i = consec_step (if i = 0 then st else consec_loop st rs ! (i - 1)) (rs ! i)"
proof (induction rs arbitrary: st i)
  case Nil
  then show ?case by simp
next
  case (Cons r rs)
  show ?case
  proof (cases i)
    case 0
    then show ?thesis by (simp add: Let_def)
  next
    case (Suc j)
    with Cons.prems have j: "j < length rs" by simp
    show ?thesis
      using Cons.IH[OF j, of "consec_step st r"] Suc by (cases j) (simp_all add: Let_def)
  qed
qed

lemma consec_step_zero: "consec_step st r = 0 \<longleftrightarrow> (isna r \<or> r = Fin 0)"
  by (cases r) (auto simp: consec_step_def isna_def fgt_def max_def min_def)

lemma consec_step_pos: "consec_step st r > 0 \<longleftrightarrow> fgt r (Fin 0)"
  by (cases r) (auto simp: consec_step_def isna_def fgt_def max_def min_def)

lemma consec_step_neg: "consec_step st r < 0 \<longleftrightarrow> flt r (Fin 0)"
  by (cases r) (auto simp: consec_step_def isna_def fgt_def max_def min_def)

lemma consec_step_turn_up: "st \<le> 0 \<Longrightarrow> fgt r (Fin 0) \<Longrightarrow> consec_step st r = 1"
  by (cases r) (auto simp: consec_step_def isna_def fgt_def max_def min_def)

lemma consec_step_turn_down: "st \<ge> 0 \<Longrightarrow> flt r (Fin 0) \<Longrightarrow> consec_step st r = - 1"
  by (cases r) (auto simp: consec_step_def isna_def fgt_def max_def min_def)

text \<open>
  Claim C3, as stated, fails: after a negative return and then a positive one the streak
  goes from \<open>-1\<close> to \<open>1\<close> on adjacent days, with no 0 in between.
\<close>

theorem consec_direct_turn_counterexample:
  "consec [Fin (- 1), Fin 1] ! 0 < 0 \<and> 0 < consec [Fin (- 1), Fin 1] ! 1"
  by (simp add: consec_def consec_step_def isna_def fgt_def Let_def)

text \<open>
  Claim C3, amended: the streak has one value per day; it is 0 exactly on the days whose
  return is zero or missing; and when it changes sign between two adjacent days, with no 0
  in between, the new streak is exactly \<open>1\<close> (after a negative one) or \<open>-1\<close> (after a
  positive one).
\<close>

theorem consec_reset_and_turn:
  assumes "i < length ret"
  shows "length (consec ret) = length ret
     \<and> (consec ret ! i = 0 \<longleftrightarrow> (isna (ret ! i) \<or> ret ! i = Fin 0))
     \<and> (0 < i \<and> consec ret ! (i - 1) < 0 \<and> 0 < consec ret ! i \<longrightarrow> consec ret ! i = 1)
     \<and> (0 < i \<and> 0 < consec ret ! (i - 1) \<and> consec ret ! i < 0 \<longrightarrow> consec ret ! i = - 1)"
proof -
  note nth = consec_loop_nth[OF assms, of 0, folded consec_def]
  have len: "length (consec ret) = length ret"
    by (simp add: consec_def consec_loop_length)
  have zero: "consec ret ! i = 0 \<longleftrightarrow> (isna (ret ! i) \<or> ret ! i = Fin 0)"
    by (subst nth) (rule consec_step_zero)
  have up: "consec ret ! i = 1"
    if "0 < i" "consec ret ! (i - 1) < 0" "0 < consec ret ! i"
  proof -
    from that(1) have eq: "consec ret ! i = consec_step (consec ret ! (i - 1)) (ret ! i)"
      using nth by simp
    with that(3) have "fgt (ret ! i) (Fin 0)" by (simp add: consec_step_pos)
    with that(2) eq show ?thesis by (simp add: consec_step_turn_up)
  qed
  have down: "consec ret ! i = - 1"
    if "0 < i" "0 < consec ret ! (i - 1)" "consec ret ! i < 0"
  proof -
    from that(1) have eq: "consec ret ! i = consec_step (consec ret ! (i - 1)) (ret ! i)"
      using nth by simp
    with that(3) have "flt (ret ! i) (Fin 0)" by (simp add: consec_step_neg)
    with that(2) eq show ?thesis by (simp add: consec_step_turn_down)
  qed
  from len zero up down show ?thesis by blast
qed

theorem consec_reset_and_turn_witness:
  "(1::nat) < length [Fin (- 2), Fin 3, NaN]
   \<and> consec [Fin (- 2), Fin 3, NaN] ! (1 - 1) < 0 \<and> 0 < consec [Fin (- 2), Fin 3, NaN] ! 1
   \<and> consec [Fin (- 2), Fin 3, NaN] ! 1 = 1
   \<and> consec [Fin (- 2), Fin 3, NaN] ! 2 = 0"
proof -
  have h1: "(1::nat) < length [Fin (- 2), Fin 3, NaN]" by simp
  have h2: "(2::nat) < length [Fin (- 2), Fin 3, NaN]" by simp
  have pre: "consec [Fin (- 2), Fin 3, NaN] ! (1 - 1) < 0 \<and> 0 < consec [Fin (- 2), Fin 3, NaN] ! 1"
    by (simp add: consec_def consec_step_def isna_def fgt_def Let_def)
  from consec_reset_and_turn[OF h1] consec_reset_and_turn[OF h2] pre h1
  show ?thesis by (simp add: isna_def)
qed

subsection \<open>Term-structure state\<close>

lemma term_state_nth:
  assumes "length rvx3m = length r9d" "i < length r9d"
  shows "term_state r9d rvx3m ! i =
     (if fgt (r9d ! i) (Fin 1) \<and> fgt (rvx3m ! i) (Fin 1) then - 1
      else if fle (r9d ! i) (Fin 1) \<and> fle (rvx3m ! i) (Fin 1) then 1 else 0)"
  using assms by (simp add: term_state_def Let_def mask_assign_def)

lemma term_state_cases:
  assumes "length rvx3m = length r9d" "i < length r9d"
  shows "term_state r9d rvx3m ! i \<in> {- 1, 0, 1}
     \<and> (term_state r9d rvx3m ! i = 1 \<longleftrightarrow> fle (r9d ! i) (Fin 1) \<and> fle (rvx3m ! i) (Fin 1))
     \<and> (term_state r9d rvx3m ! i = - 1 \<longleftrightarrow> fgt (r9d ! i) (Fin 1) \<and> fgt (rvx3m ! i) (Fin 1))
     \<and> (isna (r9d ! i) \<or> isna (rvx3m ! i) \<longrightarrow> term_state r9d rvx3m ! i = 0)"
  using fle_not_fgt[of "r9d ! i" "Fin 1"] fle_not_fgt[of "rvx3m ! i" "Fin 1"]
  by (auto simp: term_state_nth[OF assms] isna_def)

subsection \<open>Volatility regime\<close>

lemma cut1_Fin:
  "cut1 vol_bins vol_labels (Fin v) =
     Some (if v \<le> 12 then 1 else if v \<le> 15 then 2 else if v \<le> 20 then 3
           else if v \<le> 25 then 4 else if v \<le> 35 then 5 else 6)"
  by (simp add: cut1_def searchsorted_left_def vol_bins_def vol_labels_def isna_def Let_def)

lemma cut1_NaN: "cut1 vol_bins vol_labels NaN = None"
  by (simp add: cut1_def isna_def Let_def)

text \<open>
  Claim C2, as stated, fails: a short-vol close of exactly 15 is put in bucket 2, not in
  bucket 3, because the intervals of \<open>pd.cut\<close> are closed on the right.
\<close>

theorem vol_regime_boundary_counterexample:
  "vol_regime [Fin 15] = [Some 2] \<and> vol_regime [Fin 15] \<noteq> [Some 3]"
  by (simp add: vol_regime_def cut1_Fin)

text \<open>
  Claim C2, amended: every finite short-vol close gets a bucket from 1 to 6 by the
  breakpoints 12, 15, 20, 25, 35, each boundary value falling in the lower bucket (the
  intervals are \<open>(-\<infinity>,12]\<close>, \<open>(12,15]\<close>, \<open>(15,20]\<close>, \<open>(20,25]\<close>, \<open>(25,35]\<close>, \<open>(35,\<infinity>)\<close>), and
  a missing value gets the missing bucket.
\<close>

theorem vol_regime_buckets:
  assumes "i < length v"
  shows "(v ! i = Fin x \<longrightarrow>
            vol_regime v ! i =
              Some (if x \<le> 12 then 1 else if x \<le> 15 then 2 else if x \<le> 20 then 3
                    else if x \<le> 25 then 4 else if x \<le> 35 then 5 else 6)
            \<and> vol_regime v ! i \<in> Some ` {1..6})
     \<and> (isna (v ! i) \<longrightarrow> vol_regime v ! i = None)"
  using assms by (auto simp: vol_regime_def cut1_Fin cut1_NaN isna_def)

theorem vol_regime_buckets_witness:
  "(1::nat) < length [Fin (149 / 10), Fin 15, Fin (151 / 10), NaN]
   \<and> vol_regime [Fin (149 / 10), Fin 15, Fin (151 / 10), NaN] ! 0 = Some 2
   \<and> vol_regime [Fin (149 / 10), Fin 15, Fin (151 / 10), NaN] ! 1 = Some 2
   \<and> vol_regime [Fin (149 / 10), Fin 15, Fin (151 / 10), NaN] ! 2 = Some 3
   \<and> vol_regime [Fin (149 / 10), Fin 15, Fin (151 / 10), NaN] ! 3 = None"
proof -
  let ?v = "[Fin (149 / 10), Fin 15, Fin (151 / 10), NaN]"
  have h0: "(0::nat) < length ?v" and h1: "(1::nat) < length ?v"
    and h2: "(2::nat) < length ?v" and h3: "(3::nat) < length ?v" by simp_all
  from vol_regime_buckets[OF h0, of "149 / 10"] vol_regime_buckets[OF h1, of 15]
    vol_regime_buckets[OF h2, of "151 / 10"] vol_regime_buckets[OF h3] h1
  show ?thesis by (simp add: isna_def)
qed

subsection \<open>Relative strength index\<close>

lemma length_shift [simp]: "length (shift k s) = length s"
  by (simp add: shift_def)

lemma shift_nth: "i < length s \<Longrightarrow> shift k s ! i = (if i < k then NaN else s ! (i - k))"
  by (simp add: shift_def nth_append)

lemma length_diff [simp]: "length (diff k s) = length s"
  by (simp add: diff_def)

lemma diff_nth:
  "i < length s \<Longrightarrow> diff k s ! i = fsub (s ! i) (if i < k then NaN else s ! (i - k))"
  by (simp add: diff_def shift_nth)

lemma length_ewm_loop [simp]: "length (ewm_loop alpha adjust minp st xs) = length xs"
  by (induction xs arbitrary: st) (simp_all add: Let_def)

lemma length_prep_values [simp]: "length (prep_values s) = length s"
  by (simp add: prep_values_def)

lemma prep_values_fin: "all_fin s \<Longrightarrow> prep_values s = s"
  unfolding prep_values_def all_fin_def by (induction s) (auto simp: is_fin_conv)

lemma length_ewm_mean [simp]: "length (ewm_mean alpha adjust minp s) = length s"
  by (cases s) (simp_all add: ewm_mean_def prep_values_def Let_def)

lemma length_rsi_gain [simp]: "length (rsi_gain n s) = length s"
  by (simp add: rsi_gain_def clip_lower_def)

lemma length_rsi_loss [simp]: "length (rsi_loss n s) = length s"
  by (simp add: rsi_loss_def clip_upper_def)

lemma length_rsi [simp]: "length (rsi s) = length s"
  by (simp add: rsi_def rsi_n_def replace_def)

lemma fdiv_NaN_right [simp]: "fdiv a NaN = NaN"
  by (cases a) simp_all

lemma fadd_NaN_right [simp]: "fadd a NaN = NaN"
  by (cases a) simp_all

lemma fsub_NaN_right [simp]: "fsub a NaN = NaN"
  by (simp add: fsub_def)

lemma rsi_n_nth:
  "i < length s \<Longrightarrow>
   rsi_n n s ! i =
     fsub (Fin 100) (fdiv (Fin 100) (fadd (Fin 1)
       (fdiv (rsi_gain n s ! i)
             (if feq (rsi_loss n s ! i) (Fin 0) then NaN else rsi_loss n s ! i))))"
  by (simp add: rsi_n_def replace_def)

text \<open>A zero average loss is replaced by NaN, and the NaN goes through the formula.\<close>

lemma rsi_zero_loss: "i < length s \<Longrightarrow> rsi_loss 14 s ! i = Fin 0 \<Longrightarrow> rsi s ! i = NaN"
  by (simp add: rsi_def rsi_n_nth feq_def)

text \<open>The smoothed mean of a run of zeros is zero, from the warm-up on.\<close>

lemma ewm_loop_zeros:
  "weighted st = NaN \<or> weighted st = Fin 0 \<Longrightarrow> j < m \<Longrightarrow>
   ewm_loop alpha True minp st (replicate m (Fin 0)) ! j
     = (if minp \<le> nobs st + j + 1 then Fin 0 else NaN)"
proof (induction m arbitrary: st j)
  case 0
  then show ?case by simp
next
  case (Suc m)
  let ?st = "ewm_step alpha True st (Fin 0)"
  have w: "weighted ?st = Fin 0" and n: "nobs ?st = Suc (nobs st)"
    using Suc.prems(1) by (auto simp: ewm_step_def isna_def Let_def)
  show ?case
  proof (cases j)
    case 0
    then show ?thesis by (simp add: Let_def ewm_out_def w n)
  next
    case (Suc j')
    with Suc.prems have "j' < m" by simp
    from Suc.IH[OF _ this, of ?st] w n Suc show ?thesis by (simp add: Let_def)
  qed
qed

text \<open>With no down move, the losses are a NaN (the first difference) and then zeros.\<close>

lemma loss_series_monotone:
  assumes fin: "\<forall>j<length s. \<exists>x. s ! j = Fin x"
    and mono: "\<forall>j. Suc j < length s \<longrightarrow> fle (s ! j) (s ! Suc j)"
    and ne: "s \<noteq> []"
  shows "map fneg (clip_upper (Fin 0) (diff 1 s)) = NaN # replicate (length s - 1) (Fin 0)"
proof (rule nth_equalityI)
  show "length (map fneg (clip_upper (Fin 0) (diff 1 s)))
      = length (NaN # replicate (length s - 1) (Fin 0))"
    using ne by (simp add: clip_upper_def)
next
  fix i assume "i < length (map fneg (clip_upper (Fin 0) (diff 1 s)))"
  then have i: "i < length s" by (simp add: clip_upper_def)
  show "map fneg (clip_upper (Fin 0) (diff 1 s)) ! i
      = (NaN # replicate (length s - 1) (Fin 0)) ! i"
  proof (cases i)
    case 0
    then show ?thesis using i by (simp add: clip_upper_def diff_nth fgt_def)
  next
    case (Suc k)
    with i fin obtain x y where x: "s ! k = Fin x" and y: "s ! Suc k = Fin y"
      by (metis Suc_lessD)
    from mono i Suc have "fle (s ! k) (s ! Suc k)" by simp
    with x y have "x \<le> y" by (auto simp: fle_def feq_def)
    then show ?thesis using i Suc x y
      by (simp add: clip_upper_def diff_nth fgt_def fsub_def)
  qed
qed

lemma rsi_loss_monotone:
  assumes fin: "\<forall>j<length s. \<exists>x. s ! j = Fin x"
    and mono: "\<forall>j. Suc j < length s \<longrightarrow> fle (s ! j) (s ! Suc j)"
    and i: "i < length s"
  shows "rsi_loss 14 s ! i = (if 14 \<le> i then Fin 0 else NaN)"
proof -
  from i have ne: "s \<noteq> []" by auto
  let ?st = "\<lparr>weighted = NaN, old_wt = 1, nobs = 0\<rparr>"
  have L: "rsi_loss 14 s =
      ewm_out 14 ?st
      # ewm_loop (1 / (1 + (real 14 - 1))) True 14 ?st (replicate (length s - 1) (Fin 0))"
    unfolding rsi_loss_def loss_series_monotone[OF fin mono ne]
    by (simp add: ewm_mean_def prep_values_def isna_def Let_def)
  show ?thesis
  proof (cases i)
    case 0
    then show ?thesis unfolding L by (simp add: ewm_out_def)
  next
    case (Suc k)
    with i have k: "k < length s - 1" by simp
    show ?thesis
      unfolding L using ewm_loop_zeros[OF _ k, of ?st "1 / (1 + (real 14 - 1))" 14] Suc
      by simp
  qed
qed

text \<open>
  Claim C1, as stated, fails: on the closes 1, 2, ..., 15 (no down move) the average loss
  of the fifteenth day, the first after the warm-up, is exactly zero and the index is NaN,
  not 100.
\<close>

theorem rsi_zero_loss_counterexample:
  "rsi_loss 14 (map (\<lambda>n. Fin (real n)) [1..<16]) ! 14 = Fin 0
   \<and> rsi (map (\<lambda>n. Fin (real n)) [1..<16]) ! 14 = NaN
   \<and> rsi (map (\<lambda>n. Fin (real n)) [1..<16]) ! 14 \<noteq> Fin 100"
proof -
  let ?s = "map (\<lambda>n. Fin (real n)) [1..<16]"
  have fin: "\<forall>j<length ?s. \<exists>x. ?s ! j = Fin x" by simp
  have mono: "\<forall>j. Suc j < length ?s \<longrightarrow> fle (?s ! j) (?s ! Suc j)"
    by (simp add: fle_def feq_def)
  have i: "14 < length ?s" by simp
  have l: "rsi_loss 14 ?s ! 14 = Fin 0" using rsi_loss_monotone[OF fin mono i] by simp
  with rsi_zero_loss[OF i] show ?thesis by simp
qed

text \<open>
  Claim C1, amended: the index has one value per date and never fails; on every date at
  which the smoothed average loss is exactly zero it is missing (NaN). That is the case on
  every date after the 14-observation warm-up when the closes are finite and have no down
  move.
\<close>

theorem rsi_zero_loss_is_missing:
  assumes "i < length s"
  shows "length (rsi s) = length s
     \<and> (rsi_loss 14 s ! i = Fin 0 \<longrightarrow> rsi s ! i = NaN)
     \<and> (all_fin s \<and> no_down_move s \<and> 14 \<le> i
        \<longrightarrow> rsi_loss 14 s ! i = Fin 0 \<and> rsi s ! i = NaN)"
proof -
  have a: "rsi_loss 14 s ! i = Fin 0 \<longrightarrow> rsi s ! i = NaN"
    using rsi_zero_loss[OF assms] by simp
  have b: "rsi_loss 14 s ! i = Fin 0" if "all_fin s" "no_down_move s" "14 \<le> i"
  proof -
    from that(1) have fin: "\<forall>j<length s. \<exists>x. s ! j = Fin x"
      using all_fin_nth[of s] by (simp add: is_fin_conv)
    from that(2) have mono: "\<forall>j. Suc j < length s \<longrightarrow> fle (s ! j) (s ! Suc j)"
      by (simp add: no_down_move_nth)
    from rsi_loss_monotone[OF fin mono assms] that(3) show ?thesis by simp
  qed
  from a b show ?thesis by auto
qed

theorem rsi_zero_loss_is_missing_witness:
  "(14::nat) < length [Fin 1, Fin 2, Fin 3, Fin 4, Fin 5, Fin 6, Fin 7, Fin 8, Fin 9, Fin 10,
                       Fin 11, Fin 12, Fin 13, Fin 14, Fin 15]
   \<and> all_fin [Fin 1, Fin 2, Fin 3, Fin 4, Fin 5, Fin 6, Fin 7, Fin 8, Fin 9, Fin 10,
              Fin 11, Fin 12, Fin 13, Fin 14, Fin 15]
   \<and> no_down_move [Fin 1, Fin 2, Fin 3, Fin 4, Fin 5, Fin 6, Fin 7, Fin 8, Fin 9, Fin 10,
                   Fin 11, Fin 12, Fin 13, Fin 14, Fin 15]
   \<and> rsi_loss 14 [Fin 1, Fin 2, Fin 3, Fin 4, Fin 5, Fin 6, Fin 7, Fin 8, Fin 9, Fin 10,
                  Fin 11, Fin 12, Fin 13, Fin 14, Fin 15] ! 14 = Fin 0
   \<and> rsi [Fin 1, Fin 2, Fin 3, Fin 4, Fin 5, Fin 6, Fin 7, Fin 8, Fin 9, Fin 10,
          Fin 11, Fin 12, Fin 13, Fin 14, Fin 15] ! 14 = NaN"
proof -
  let ?s = "[Fin 1, Fin 2, Fin 3, Fin 4, Fin 5, Fin 6, Fin 7, Fin 8, Fin 9, Fin 10,
             Fin 11, Fin 12, Fin 13, Fin 14, Fin 15]"
  have i: "14 < length ?s" by simp
  have fin: "all_fin ?s" by (simp add: all_fin_def)
  have mono: "no_down_move ?s" by (simp add: fle_def feq_def)
  from rsi_zero_loss_is_missing[OF i] fin mono
  have "rsi_loss 14 ?s ! 14 = Fin 0 \<and> rsi ?s ! 14 = NaN" by simp
  with i fin mono show ?thesis by blast
qed

subsection \<open>Options-expiration flag\<close>

lemma mod7_aux: "((a::int) mod 7 + d - 1) mod 7 = (a + d + 6) mod 7"
proof -
  have e: "a + d + 6 = a + (d - 1) + 7 * 1" by simp
  have "(a mod 7 + d - 1) mod 7 = (a mod 7 + (d - 1)) mod 7" by (simp add: algebra_simps)
  also have "\<dots> = (a + (d - 1)) mod 7" by (rule mod_add_left_eq)
  also have "\<dots> = (a + (d - 1) + 7 * 1) mod 7" by (simp only: mod_mult_self2)
  finally show ?thesis by (simp only: e)
qed

text \<open>Within a month the weekday moves with the day.\<close>

lemma weekday_day:
  "weekday (dt\<lparr>day := d\<rparr>) = (weekday (dt\<lparr>day := 1\<rparr>) + d - 1) mod 7"
  by (simp add: weekday_def toordinal_def mod7_aux)

lemma weekday_range: "0 \<le> weekday dt" "weekday dt < 7"
  by (simp_all add: weekday_def)

lemma days_in_month_ge: "28 \<le> days_in_month y m"
  by (simp add: days_in_month_def)

lemma days_in_month_le: "days_in_month y m \<le> 31"
  by (simp add: days_in_month_def)

text \<open>Adding days that stay within the first 28 days of a month only moves the day.\<close>

lemma add_days_in_month:
  "day dt + int k \<le> 28 \<Longrightarrow> add_days dt k = dt\<lparr>day := day dt + int k\<rparr>"
proof (induction k arbitrary: dt)
  case 0
  then show ?case by simp
next
  case (Suc k)
  have lt: "day dt < days_in_month (year dt) (month dt)"
    using Suc.prems days_in_month_ge[of "year dt" "month dt"] by simp
  then have nd: "next_day dt = dt\<lparr>day := day dt + 1\<rparr>" by (simp add: next_day_def)
  have "add_days (next_day dt) k = (next_day dt)\<lparr>day := day (next_day dt) + int k\<rparr>"
    by (rule Suc.IH) (use Suc.prems nd in simp)
  then show ?case by (simp add: nd add.assoc)
qed

text \<open>The flag is set on the day \<open>15 + k\<close>, where day \<open>1 + k\<close> is the first Friday.\<close>

lemma is_opex1_day:
  "is_opex1 dt = (if day dt = 15 + (4 - weekday (dt\<lparr>day := 1\<rparr>)) mod 7 then 1 else 0)"
proof -
  let ?f = "dt\<lparr>day := 1\<rparr>"
  let ?k = "nat ((4 - weekday ?f) mod 7)"
  have k: "int ?k = (4 - weekday ?f) mod 7" by simp
  have k6: "int ?k \<le> 6" by simp
  have ff: "add_days ?f ?k = ?f\<lparr>day := 1 + int ?k\<rparr>"
    using k6 add_days_in_month[of ?f ?k] by simp
  have tf: "add_days (add_days ?f ?k) 14 = dt\<lparr>day := 15 + int ?k\<rparr>"
    using k6 add_days_in_month[of "?f\<lparr>day := 1 + int ?k\<rparr>" 14] by (simp add: ff)
  have "dt = dt\<lparr>day := 15 + int ?k\<rparr> \<longleftrightarrow> day dt = 15 + int ?k"
    by (cases dt) auto
  then show ?thesis
    unfolding is_opex1_def Let_def tf k by simp
qed

text \<open>
  Fridays are seven days apart: before a Friday on day \<open>D\<close> of a month there are
  \<open>(D - 1) div 7\<close> Fridays in that month, so exactly two when \<open>D\<close> is 15 to 21.
\<close>

lemma not_friday_near:
  assumes "(w + D - 1) mod 7 = (4::int)" "d < D" "D - 7 < d"
  shows "(w + d - 1) mod 7 \<noteq> 4"
proof
  assume "(w + d - 1) mod 7 = 4"
  with assms(1) have "(w + D - 1) mod 7 = (w + d - 1) mod 7" by simp
  then have "7 dvd ((w + D - 1) - (w + d - 1))" by (simp only: mod_eq_dvd_iff)
  then have "7 dvd (D - d)" by simp
  then have "7 \<le> D - d" using assms(2) by (intro zdvd_imp_le) auto
  with assms(3) show False by simp
qed

lemma friday_minus7:
  assumes "(w + D - 1) mod 7 = (4::int)"
  shows "(w + (D - 7) - 1) mod 7 = 4"
proof -
  have "w + (D - 7) - 1 = (w + D - 1) - 7" by simp
  then show ?thesis using assms by (simp only: minus_mod_self2)
qed

lemma count_fridays_gen:
  assumes "(w + D - 1) mod 7 = 4" "1 \<le> D"
  shows "length (filter (\<lambda>d. (w + d - 1) mod 7 = 4) [1..D - 1]) = nat ((D - 1) div 7)"
  using assms
proof (induction "nat D" arbitrary: D rule: less_induct)
  case less
  let ?P = "\<lambda>d. (w + d - 1) mod 7 = 4"
  show ?case
  proof (cases "D \<le> 7")
    case True
    have "filter ?P [1..D - 1] = []"
      unfolding filter_empty_conv
    proof
      fix d assume "d \<in> set [1..D - 1]"
      then have "d < D" "D - 7 < d" using True by auto
      from not_friday_near[OF less.prems(1) this] show "\<not> ?P d" .
    qed
    moreover have "(D - 1) div 7 = 0" using True less.prems(2) by simp
    ultimately show ?thesis by simp
  next
    case False
    have split: "[1..D - 1] = [1..(D - 7) - 1] @ (D - 7) # [(D - 7) + 1..D - 1]"
      by (rule upto_split3) (use False in auto)
    have P': "?P (D - 7)" by (rule friday_minus7[OF less.prems(1)])
    have none: "filter ?P [(D - 7) + 1..D - 1] = []"
      unfolding filter_empty_conv
    proof
      fix d assume "d \<in> set [(D - 7) + 1..D - 1]"
      then have "d < D" "D - 7 < d" by auto
      from not_friday_near[OF less.prems(1) this] show "\<not> ?P d" .
    qed
    have IH: "length (filter ?P [1..(D - 7) - 1]) = nat (((D - 7) - 1) div 7)"
      by (rule less.hyps) (use False P' in auto)
    have d: "(D - 1) div 7 = ((D - 7) - 1) div 7 + 1"
    proof -
      have "D - 1 = ((D - 7) - 1) + 7" by simp
      then show ?thesis by (simp only: div_add_self2)
    qed
    have nn: "0 \<le> ((D - 7) - 1) div 7" using False by simp
    show ?thesis
      unfolding split using P' none IH nn by (simp add: d nat_add_distrib)
  qed
qed

lemma count_fridays:
  assumes "1 \<le> D" "(w + D - 1) mod 7 = 4"
  shows "length (filter (\<lambda>d. (w + d - 1) mod 7 = 4) [1..D - 1]) = 2 \<longleftrightarrow> 15 \<le> D \<and> D \<le> 21"
proof -
  have "nat ((D - 1) div 7) = 2 \<longleftrightarrow> 15 \<le> D \<and> D \<le> 21" using assms(1) by arith
  then show ?thesis by (simp only: count_fridays_gen[OF assms(2,1)])
qed

lemma third_friday_day:
  assumes "1 \<le> day dt" "day dt \<le> 31"
  shows "third_friday dt \<longleftrightarrow> weekday dt = 4 \<and> 15 \<le> day dt \<and> day dt \<le> 21"
proof -
  let ?w = "weekday (dt\<lparr>day := 1\<rparr>)"
  have wd: "weekday dt = (?w + day dt - 1) mod 7"
    using weekday_day[where dt = dt and d = "day dt"] by simp
  have "weekday (dt\<lparr>day := d\<rparr>) = 4 \<longleftrightarrow> (?w + d - 1) mod 7 = 4" for d
    by (subst weekday_day) (rule refl)
  then have cnt: "filter (\<lambda>d. weekday (dt\<lparr>day := d\<rparr>) = 4) [1..day dt - 1]
      = filter (\<lambda>d. (?w + d - 1) mod 7 = 4) [1..day dt - 1]"
    by (simp only:)
  show ?thesis
  proof (cases "weekday dt = 4")
    case True
    with wd have "(?w + day dt - 1) mod 7 = 4" by simp
    from count_fridays[OF assms(1) this] True show ?thesis
      unfolding third_friday_def cnt by simp
  next
    case False
    then show ?thesis by (simp add: third_friday_def)
  qed
qed

lemma opex_day_iff:
  assumes "0 \<le> w" "w < 7"
  shows "D = 15 + (4 - w) mod 7 \<longleftrightarrow> (w + D - 1) mod 7 = 4 \<and> 15 \<le> D \<and> D \<le> (21::int)"
proof -
  from assms have "w = 0 \<or> w = 1 \<or> w = 2 \<or> w = 3 \<or> w = 4 \<or> w = 5 \<or> w = 6" by arith
  then show ?thesis by (elim disjE; simp; presburger)
qed

text \<open>
  On a valid date the flag is 1 if and only if the date is the third Friday of its month.
\<close>

lemma is_opex1_third_friday:
  assumes "valid_date dt"
  shows "is_opex1 dt = 1 \<longleftrightarrow> third_friday dt"
proof -
  let ?w = "weekday (dt\<lparr>day := 1\<rparr>)"
  from assms have d: "1 \<le> day dt" "day dt \<le> 31"
    using days_in_month_le[of "year dt" "month dt"] by (simp_all add: valid_date_def)
  have wd: "weekday dt = (?w + day dt - 1) mod 7"
    using weekday_day[where dt = dt and d = "day dt"] by simp
  have "is_opex1 dt = 1 \<longleftrightarrow> day dt = 15 + (4 - ?w) mod 7"
    by (simp add: is_opex1_day)
  also have "\<dots> \<longleftrightarrow> weekday dt = 4 \<and> 15 \<le> day dt \<and> day dt \<le> 21"
    unfolding wd by (rule opex_day_iff[OF weekday_range])
  also have "\<dots> \<longleftrightarrow> third_friday dt"
    by (rule third_friday_day[OF d, symmetric])
  finally show ?thesis .
qed

lemma is_opex1_flag: "is_opex1 dt \<in> {0, 1}"
  by (simp add: is_opex1_day)

lemma weekday_2024_01_01: "weekday \<lparr>year = 2024, month = 1, day = 1\<rparr> = 0"
  by (simp add: weekday_def toordinal_def days_before_year_def days_before_month_def is_leap_def)


section \<open>Properties of the assembled table\<close>

subsection \<open>Row selection and column lookup\<close>

lemma list3_eqI:
  assumes "length xs = 3" "xs ! 0 = a" "xs ! 1 = b" "xs ! 2 = c"
  shows "xs = [a, b, c]"
  using assms by (intro nth_equalityI) (auto simp: less_Suc_eq numeral_3_eq_3 numeral_2_eq_2)

lemma filter_mask_map: "filter_mask (map P xs) (map f xs) = map f (filter P xs)"
  by (induction xs) (simp_all add: filter_mask_def)

lemma filter_mask_same: "filter_mask (map P xs) xs = filter P xs"
  using filter_mask_map[of P xs "\<lambda>x. x"] by simp

text \<open>Trimming a column of the calendar's length keeps the values at the kept positions.\<close>

lemma filter_mask_kept:
  assumes "length xs = length idx"
  shows "filter_mask (map (\<lambda>d. date_ge d start) idx) xs = map ((!) xs) (kept start idx)"
proof -
  let ?l = "[0..<length idx]"
  have xs: "xs = map ((!) xs) ?l" by (metis assms map_nth)
  have m: "map (\<lambda>d. date_ge d start) idx = map (\<lambda>i. date_ge (idx ! i) start) ?l"
    by (rule nth_equalityI) simp_all
  have "filter_mask (map (\<lambda>d. date_ge d start) idx) xs
      = filter_mask (map (\<lambda>i. date_ge (idx ! i) start) ?l) (map ((!) xs) ?l)"
    by (rule arg_cong2[where f = filter_mask, OF m xs])
  also have "\<dots> = map ((!) xs) (filter (\<lambda>i. date_ge (idx ! i) start) ?l)"
    by (rule filter_mask_map)
  finally show ?thesis by (simp add: kept_def)
qed

lemma kept_lt: "k < length (kept start idx) \<Longrightarrow> kept start idx ! k < length idx"
  using nth_mem[of k "kept start idx"] by (simp add: kept_def)

lemma filter_kept: "filter (\<lambda>d. date_ge d start) idx = map ((!) idx) (kept start idx)"
  using filter_mask_kept[of idx idx start] by (simp add: filter_mask_same)

lemma set_filter_mask: "set (filter_mask keep xs) \<subseteq> set xs"
  by (auto simp: filter_mask_def dest: set_zip_leftD)

lemma column_of_trim:
  "column_of (trim start df) name
     = map_option (col_filter (map (\<lambda>d. date_ge d start) (df_index df))) (column_of df name)"
  by (simp add: column_of_def trim_def Let_def map_of_map)

lemma df_index_trim: "df_index (trim start df) = filter (\<lambda>d. date_ge d start) (df_index df)"
  by (simp add: trim_def Let_def filter_mask_same)

lemma column_of_reindex_columns:
  "name \<in> set names \<Longrightarrow> column_of df name = Some c \<Longrightarrow>
   column_of (reindex_columns names df) name = Some c"
  by (simp add: column_of_def reindex_columns_def map_of_map_restrict)

lemma df_index_reindex_columns [simp]: "df_index (reindex_columns names df) = df_index df"
  by (simp add: reindex_columns_def)

lemma df_index_features [simp]: "df_index (features tz spx vix v9 v3 tr) = index spx"
  by (simp add: features_def Let_def)

lemma df_index_assembled:
  "df_index (assembled e start spx vix0 trend) = map ((!) (index spx)) (kept start (index spx))"
  by (simp add: assembled_def df_index_trim filter_kept)

text \<open>A column of the written table is the trimmed column of the assignments.\<close>

lemma column_of_assembled:
  assumes "name \<in> set cols"
    and "column_of (features (eastern e) spx (reindex vix0 (index spx))
             (secondary e start TICKER_VIX9D (index spx))
             (secondary e start TICKER_VIX3M (index spx)) trend) name = Some c"
  shows "column_of (assembled e start spx vix0 trend) name
     = Some (col_filter (map (\<lambda>d. date_ge d start) (index spx)) c)"
  unfolding assembled_def
  by (rule column_of_reindex_columns[OF assms(1)]) (simp add: column_of_trim assms(2))

lemma float_col_assembled:
  assumes "name \<in> set cols"
    and "column_of (features (eastern e) spx (reindex vix0 (index spx))
             (secondary e start TICKER_VIX9D (index spx))
             (secondary e start TICKER_VIX3M (index spx)) trend) name = Some (FloatCol s)"
    and "length s = length (index spx)"
  shows "float_col (assembled e start spx vix0 trend) name = map ((!) s) (kept start (index spx))"
  by (simp add: float_col_def column_of_assembled[OF assms(1,2)] filter_mask_kept[OF assms(3)])

lemma int_col_assembled:
  assumes "name \<in> set cols"
    and "column_of (features (eastern e) spx (reindex vix0 (index spx))
             (secondary e start TICKER_VIX9D (index spx))
             (secondary e start TICKER_VIX3M (index spx)) trend) name = Some (IntCol s)"
    and "length s = length (index spx)"
  shows "int_col (assembled e start spx vix0 trend) name = map ((!) s) (kept start (index spx))"
  by (simp add: int_col_def column_of_assembled[OF assms(1,2)] filter_mask_kept[OF assms(3)])

subsection \<open>The run up to the table\<close>

lemma build_table_eq:
  assumes "fetch e start TICKER_SPX = Inr spx" "fetch e start TICKER_VIX = Inr vix0"
    "trend_score (Close spx) = Inr trend"
  shows "build_table e start = Inr (assembled e start spx vix0 trend)"
  using assms by (simp add: build_table_def fetch_def assembled_def secondary_def Let_def)

lemma build_table_InrE:
  assumes "build_table e start = Inr df"
  obtains spx vix0 trend where "fetch e start TICKER_SPX = Inr spx"
    "fetch e start TICKER_VIX = Inr vix0" "trend_score (Close spx) = Inr trend"
    "df = assembled e start spx vix0 trend"
  using assms
  by (auto simp: build_table_def fetch_def assembled_def secondary_def Let_def
      split: sum.splits)

lemma build_table_primary_fails:
  "fetch e start TICKER_SPX = Inl err \<Longrightarrow> build_table e start = Inl err"
  by (simp add: build_table_def fetch_def Let_def)

subsection \<open>The sample run\<close>

lemma sample_trend: "trend_score (Close sample_spx) = Inr [0, 3, - 3]"
  by (simp add: sample_spx_def trend_score_def trend_sc_def ema_def ewm_mean_def prep_values_def
      ewm_step_def
      ewm_out_def Let_def sdiv_def ssub_def sadd_def scale_def diff_def shift_def isna_def
      fsub_def fgt_def round_half_even_def)

lemma sample_fetch_spx: "fetch sample_env start TICKER_SPX = Inr sample_spx"
  by (simp add: fetch_def download_def sample_env_def sample_spx_def sample_dates_def)

lemma sample_fetch_vix: "fetch sample_env start TICKER_VIX = Inr sample_vix"
  by (simp add: fetch_def download_def sample_env_def sample_vix_def sample_dates_def
      TICKER_SPX_def TICKER_VIX_def)

lemma sample_build_table:
  "build_table sample_env start
     = Inr (assembled sample_env start sample_spx sample_vix [0, 3, - 3])"
  by (rule build_table_eq[OF sample_fetch_spx sample_fetch_vix sample_trend])

lemma sample_well_formed: "well_formed sample_spx"
  by (simp add: well_formed_def sample_spx_def sample_dates_def)

lemma sample_kept: "kept sample_start (index sample_spx) = [1, 2]"
  by (simp add: kept_def sample_spx_def sample_start_def sample_dates_def date_ge_def upt_rec)

lemma sample_kept_all: "kept (hd sample_dates) (index sample_spx) = [0, 1, 2]"
  by (simp add: kept_def sample_spx_def sample_dates_def date_ge_def upt_rec)

subsection \<open>Prior close\<close>

lemma features_Prior_Close:
  "column_of (features tz spx vix v9 v3 tr) ''Prior_Close''
     = Some (FloatCol (shift 1 (Close spx)))"
  by (simp add: column_of_def features_def Let_def)

lemma Prior_Close_in_cols: "''Prior_Close'' \<in> set cols"
  by (simp add: cols_def)

lemma float_col_Prior_Close:
  "well_formed spx \<Longrightarrow>
   float_col (assembled e start spx vix0 trend) ''Prior_Close''
     = map ((!) (shift 1 (Close spx))) (kept start (index spx))"
  by (rule float_col_assembled[OF Prior_Close_in_cols features_Prior_Close])
     (simp add: well_formed_def shift_def)

text \<open>
  Claim C9: row \<open>k\<close> of the written table is the calendar date at position
  \<open>j = kept start idx ! k\<close>; its Prior_Close is the index close at position \<open>j - 1\<close> of the
  aligned calendar, and it is missing when \<open>j\<close> is the first date of the calendar.
\<close>

theorem prior_close_is_previous_close:
  assumes "fetch e start TICKER_SPX = Inr spx" "well_formed spx" "build_table e start = Inr df"
  shows "length (df_index df) = length (kept start (index spx))
     \<and> length (float_col df ''Prior_Close'') = length (kept start (index spx))
     \<and> (\<forall>k<length (kept start (index spx)).
          df_index df ! k = index spx ! (kept start (index spx) ! k)
          \<and> float_col df ''Prior_Close'' ! k
              = (if kept start (index spx) ! k = 0 then NaN
                 else Close spx ! (kept start (index spx) ! k - 1)))"
proof -
  from assms(3) obtain spx' vix0 trend where f: "fetch e start TICKER_SPX = Inr spx'"
    and df: "df = assembled e start spx' vix0 trend"
    by (rule build_table_InrE)
  from f assms(1) have [simp]: "spx' = spx" by simp
  from assms(2) have len: "length (shift 1 (Close spx)) = length (index spx)"
    by (simp add: well_formed_def shift_def)
  have pc: "float_col df ''Prior_Close'' = map ((!) (shift 1 (Close spx))) (kept start (index spx))"
    unfolding df using float_col_assembled[OF Prior_Close_in_cols features_Prior_Close len]
    by simp
  have ix: "df_index df = map ((!) (index spx)) (kept start (index spx))"
    by (simp add: df df_index_assembled)
  have "float_col df ''Prior_Close'' ! k
      = (if kept start (index spx) ! k = 0 then NaN
         else Close spx ! (kept start (index spx) ! k - 1))"
    if "k < length (kept start (index spx))" for k
  proof -
    from kept_lt[OF that] assms(2) have "kept start (index spx) ! k < length (Close spx)"
      by (simp add: well_formed_def)
    then show ?thesis using that by (simp add: pc shift_def nth_append)
  qed
  with pc ix show ?thesis by simp
qed

theorem prior_close_is_previous_close_witness:
  "fetch sample_env sample_start TICKER_SPX = Inr sample_spx \<and> well_formed sample_spx
   \<and> (\<exists>df. build_table sample_env sample_start = Inr df
         \<and> float_col df ''Prior_Close'' ! 0 = Fin 101 \<and> float_col df ''Prior_Close'' ! 1 = Fin 103)
   \<and> (\<exists>df. build_table sample_env (hd sample_dates) = Inr df
         \<and> float_col df ''Prior_Close'' ! 0 = NaN \<and> float_col df ''Prior_Close'' ! 1 = Fin 101)"
proof -
  let ?df = "assembled sample_env sample_start sample_spx sample_vix [0, 3, - 3]"
  let ?df' = "assembled sample_env (hd sample_dates) sample_spx sample_vix [0, 3, - 3]"
  from prior_close_is_previous_close[OF sample_fetch_spx sample_well_formed sample_build_table,
      of sample_start]
  have a: "float_col ?df ''Prior_Close'' ! 0 = Fin 101 \<and> float_col ?df ''Prior_Close'' ! 1 = Fin 103"
    by (simp add: sample_kept) (simp add: sample_spx_def)
  from prior_close_is_previous_close[OF sample_fetch_spx sample_well_formed sample_build_table,
      of "hd sample_dates"]
  have b: "float_col ?df' ''Prior_Close'' ! 0 = NaN \<and> float_col ?df' ''Prior_Close'' ! 1 = Fin 101"
    by (simp add: sample_kept_all) (simp add: sample_spx_def)
  from a b sample_fetch_spx sample_well_formed sample_build_table show ?thesis by blast
qed

subsection \<open>Day of week\<close>

lemma features_Day_of_Week:
  "column_of (features tz spx vix v9 v3 tr) ''Day_of_Week''
     = Some (IntCol (map (\<lambda>d. weekday d + 2) (index spx)))"
  by (simp add: column_of_def features_def Let_def)

lemma Day_of_Week_in_cols: "''Day_of_Week'' \<in> set cols"
  by (simp add: cols_def)

text \<open>
  Claim C10: on every row the Day_of_Week column is the weekday index of the row's date
  (Monday is 0) plus 2, a value from 2 to 8: Monday is 2, Tuesday 3, and so on to Friday 6.
\<close>

theorem day_of_week_encoding:
  assumes "build_table e start = Inr df"
  shows "length (int_col df ''Day_of_Week'') = length (df_index df)
     \<and> (\<forall>k<length (df_index df).
          int_col df ''Day_of_Week'' ! k = weekday (df_index df ! k) + 2
          \<and> 2 \<le> int_col df ''Day_of_Week'' ! k \<and> int_col df ''Day_of_Week'' ! k \<le> 8)"
proof -
  from assms obtain spx vix0 trend where df: "df = assembled e start spx vix0 trend"
    by (rule build_table_InrE)
  let ?keep = "map (\<lambda>d. date_ge d start) (index spx)"
  have col: "int_col df ''Day_of_Week''
      = map (\<lambda>d. weekday d + 2) (filter (\<lambda>d. date_ge d start) (index spx))"
    unfolding df int_col_def
    by (simp add: column_of_assembled[OF Day_of_Week_in_cols features_Day_of_Week]
        filter_mask_map)
  have ix: "df_index df = filter (\<lambda>d. date_ge d start) (index spx)"
    by (simp add: df assembled_def df_index_trim)
  have "weekday d \<le> 6" for d using weekday_range(2)[of d] by simp
  then show ?thesis
    using weekday_range(1) by (simp add: col ix)
qed

theorem day_of_week_encoding_witness:
  "\<exists>df. build_table sample_env sample_start = Inr df
       \<and> df_index df = [\<lparr>year = 2024, month = 1, day = 19\<rparr>, \<lparr>year = 2024, month = 1, day = 22\<rparr>]
       \<and> int_col df ''Day_of_Week'' = [6, 2]"
proof -
  let ?df = "assembled sample_env sample_start sample_spx sample_vix [0, 3, - 3]"
  have ix: "df_index ?df
      = [\<lparr>year = 2024, month = 1, day = 19\<rparr>, \<lparr>year = 2024, month = 1, day = 22\<rparr>]"
    by (simp add: df_index_assembled sample_kept) (simp add: sample_spx_def sample_dates_def)
  have w: "weekday \<lparr>year = 2024, month = 1, day = 19\<rparr> = 4"
    "weekday \<lparr>year = 2024, month = 1, day = 22\<rparr> = 0"
    by (simp_all add: weekday_def toordinal_def days_before_year_def days_before_month_def
        is_leap_def)
  from day_of_week_encoding[OF sample_build_table]
  have "length (int_col ?df ''Day_of_Week'') = 2 \<and> int_col ?df ''Day_of_Week'' ! 0 = 6
      \<and> int_col ?df ''Day_of_Week'' ! 1 = 2"
    by (simp add: ix w)
  then have "int_col ?df ''Day_of_Week'' = [6, 2]"
    by (intro nth_equalityI) (auto simp: less_Suc_eq numeral_2_eq_2)
  with sample_build_table ix show ?thesis by blast
qed

subsection \<open>Options-expiration flag of the table\<close>

lemma features_Is_Opex:
  "column_of (features tz spx vix v9 v3 tr) ''Is_Opex'' = Some (IntCol (is_opex (index spx)))"
  by (simp add: column_of_def features_def Let_def)

lemma Is_Opex_in_cols: "''Is_Opex'' \<in> set cols"
  by (simp add: cols_def)

lemma features_date:
  "column_of (features tz spx vix v9 v3 tr) ''date'' = Some (StrCol (map strftime (index spx)))"
  by (simp add: column_of_def features_def Let_def)

lemma date_in_cols: "''date'' \<in> set cols"
  by (simp add: cols_def)

text \<open>
  Claim C7: the \<open>date\<close> column of the written table prints the dates of its rows, and on
  every row the Is_Opex column is the flag computed from that date alone, 0 or 1; on a
  valid calendar date it is 1 if and only if the date is the third Friday of its month.
\<close>

theorem is_opex_column_third_friday:
  assumes "build_table e start = Inr df"
  shows "length (int_col df ''Is_Opex'') = length (df_index df)
     \<and> cells_of df ''date'' = map (\<lambda>d. CStr (strftime d)) (df_index df)
     \<and> (\<forall>k<length (df_index df).
          int_col df ''Is_Opex'' ! k = is_opex1 (df_index df ! k)
          \<and> int_col df ''Is_Opex'' ! k \<in> {0, 1}
          \<and> (valid_date (df_index df ! k) \<longrightarrow>
               (int_col df ''Is_Opex'' ! k = 1 \<longleftrightarrow> third_friday (df_index df ! k))))"
proof -
  from assms obtain spx vix0 trend where df: "df = assembled e start spx vix0 trend"
    by (rule build_table_InrE)
  have col: "int_col df ''Is_Opex'' = map is_opex1 (filter (\<lambda>d. date_ge d start) (index spx))"
    unfolding df int_col_def is_opex_def
    by (simp add: column_of_assembled[OF Is_Opex_in_cols features_Is_Opex] is_opex_def
        filter_mask_map)
  have dt: "cells_of df ''date''
      = map (\<lambda>d. CStr (strftime d)) (filter (\<lambda>d. date_ge d start) (index spx))"
    unfolding df cells_of_def
    by (simp add: column_of_assembled[OF date_in_cols features_date] filter_mask_map)
  have ix: "df_index df = filter (\<lambda>d. date_ge d start) (index spx)"
    by (simp add: df assembled_def df_index_trim)
  show ?thesis
    using is_opex1_third_friday is_opex1_flag by (simp add: col dt ix)
qed

theorem is_opex_column_third_friday_witness:
  "\<exists>df. build_table sample_env (hd sample_dates) = Inr df
       \<and> df_index df = [\<lparr>year = 2024, month = 1, day = 18\<rparr>, \<lparr>year = 2024, month = 1, day = 19\<rparr>,
                        \<lparr>year = 2024, month = 1, day = 22\<rparr>]
       \<and> cells_of df ''date'' = [CStr ''2024-01-18'', CStr ''2024-01-19'', CStr ''2024-01-22'']
       \<and> int_col df ''Is_Opex'' = [0, 1, 0]
       \<and> valid_date \<lparr>year = 2024, month = 1, day = 19\<rparr>
       \<and> third_friday \<lparr>year = 2024, month = 1, day = 19\<rparr>
       \<and> is_opex1 \<lparr>year = 2024, month = 1, day = 12\<rparr> = 0"
proof -
  let ?df = "assembled sample_env (hd sample_dates) sample_spx sample_vix [0, 3, - 3]"
  have ix: "df_index ?df
      = [\<lparr>year = 2024, month = 1, day = 18\<rparr>, \<lparr>year = 2024, month = 1, day = 19\<rparr>,
         \<lparr>year = 2024, month = 1, day = 22\<rparr>]"
    by (simp add: df_index_assembled sample_kept_all) (simp add: sample_spx_def sample_dates_def)
  have v: "valid_date \<lparr>year = 2024, month = 1, day = 19\<rparr>"
    by (simp add: valid_date_def days_in_month_def)
  have o: "is_opex1 \<lparr>year = 2024, month = 1, day = 18\<rparr> = 0"
    "is_opex1 \<lparr>year = 2024, month = 1, day = 19\<rparr> = 1"
    "is_opex1 \<lparr>year = 2024, month = 1, day = 22\<rparr> = 0"
    "is_opex1 \<lparr>year = 2024, month = 1, day = 12\<rparr> = 0"
    by (simp_all add: is_opex1_day weekday_2024_01_01)
  have s: "strftime \<lparr>year = 2024, month = 1, day = 18\<rparr> = ''2024-01-18''"
    "strftime \<lparr>year = 2024, month = 1, day = 19\<rparr> = ''2024-01-19''"
    "strftime \<lparr>year = 2024, month = 1, day = 22\<rparr> = ''2024-01-22''"
    by (simp_all add: strftime_def digit_def char_of_def)
  note t = is_opex_column_third_friday[OF sample_build_table, of "hd sample_dates"]
  from t have d: "cells_of ?df ''date'' = [CStr ''2024-01-18'', CStr ''2024-01-19'', CStr ''2024-01-22'']"
    by (simp add: ix s)
  from t have "length (int_col ?df ''Is_Opex'') = 3 \<and> int_col ?df ''Is_Opex'' ! 0 = 0
      \<and> int_col ?df ''Is_Opex'' ! 1 = 1 \<and> int_col ?df ''Is_Opex'' ! 2 = 0"
    by (simp add: ix o)
  then have c: "int_col ?df ''Is_Opex'' = [0, 1, 0]"
    by (intro nth_equalityI) (auto simp: less_Suc_eq numeral_3_eq_3 numeral_2_eq_2)
  from t have "\<forall>k<length (df_index ?df). valid_date (df_index ?df ! k) \<longrightarrow>
      (int_col ?df ''Is_Opex'' ! k = 1 \<longleftrightarrow> third_friday (df_index ?df ! k))"
    by blast
  from this[rule_format, of 1] have tf: "third_friday \<lparr>year = 2024, month = 1, day = 19\<rparr>"
    by (simp add: ix c v)
  from sample_build_table ix d c v tf o(4) show ?thesis by blast
qed

subsection \<open>Gap filled\<close>

lemma features_Gap_Filled:
  "column_of (features tz spx vix v9 v3 tr) ''Gap_Filled''
     = Some (IntCol (gap_filled
          (scale 100 (sdiv (ssub (Open spx) (shift 1 (Close spx))) (shift 1 (Close spx))))
          (Low spx) (High spx) (shift 1 (Close spx))))"
  by (simp add: column_of_def features_def Let_def)

lemma features_Gap_Pct:
  "column_of (features tz spx vix v9 v3 tr) ''Gap_Pct''
     = Some (FloatCol
          (scale 100 (sdiv (ssub (Open spx) (shift 1 (Close spx))) (shift 1 (Close spx)))))"
  by (simp add: column_of_def features_def Let_def)

lemma features_open:
  "column_of (features tz spx vix v9 v3 tr) ''open'' = Some (FloatCol (Open spx))"
  by (simp add: column_of_def features_def Let_def)

lemma features_high:
  "column_of (features tz spx vix v9 v3 tr) ''high'' = Some (FloatCol (High spx))"
  by (simp add: column_of_def features_def Let_def)

lemma features_low:
  "column_of (features tz spx vix v9 v3 tr) ''low'' = Some (FloatCol (Low spx))"
  by (simp add: column_of_def features_def Let_def)

lemma gap_names_in_cols:
  "''Gap_Filled'' \<in> set cols" "''Gap_Pct'' \<in> set cols" "''open'' \<in> set cols"
  "''high'' \<in> set cols" "''low'' \<in> set cols"
  by (simp_all add: cols_def)

lemma float_col_open:
  "well_formed spx \<Longrightarrow>
   float_col (assembled e start spx vix0 trend) ''open''
     = map ((!) (Open spx)) (kept start (index spx))"
  by (rule float_col_assembled[OF gap_names_in_cols(3) features_open])
     (simp add: well_formed_def)

lemma float_col_low:
  "well_formed spx \<Longrightarrow>
   float_col (assembled e start spx vix0 trend) ''low''
     = map ((!) (Low spx)) (kept start (index spx))"
  by (rule float_col_assembled[OF gap_names_in_cols(5) features_low])
     (simp add: well_formed_def)

lemma gap_filled_nth:
  assumes "j < length gap" "length low = length gap" "length high = length gap"
    "length prior = length gap"
  shows "gap_filled gap low high prior ! j =
     (if (fgt (gap ! j) (Fin 0) \<and> fle (low ! j) (prior ! j))
         \<or> (flt (gap ! j) (Fin 0) \<and> fge (high ! j) (prior ! j)) then 1 else 0)"
  using assms by (simp add: gap_filled_def)

lemma length_gap_filled:
  "length low = length gap \<Longrightarrow> length high = length gap \<Longrightarrow> length prior = length gap \<Longrightarrow>
   length (gap_filled gap low high prior) = length gap"
  by (simp add: gap_filled_def)

text \<open>
  Claim C6: on every row Gap_Filled is 0 or 1; it is 1 exactly when the gap is up
  (Gap_Pct \<open>> 0\<close>) and the low is at or below the prior close, or the gap is down
  (Gap_Pct \<open>< 0\<close>) and the high is at or above the prior close; so it is 0 whenever Gap_Pct
  is exactly 0. Gap_Pct itself is \<open>(open - Prior_Close) / Prior_Close * 100\<close>.
\<close>

theorem gap_filled_rule:
  assumes "fetch e start TICKER_SPX = Inr spx" "well_formed spx" "build_table e start = Inr df"
  shows "length (int_col df ''Gap_Filled'') = length (df_index df)
     \<and> (\<forall>k<length (df_index df).
          int_col df ''Gap_Filled'' ! k \<in> {0, 1}
          \<and> (int_col df ''Gap_Filled'' ! k = 1 \<longleftrightarrow>
                (fgt (float_col df ''Gap_Pct'' ! k) (Fin 0)
                   \<and> fle (float_col df ''low'' ! k) (float_col df ''Prior_Close'' ! k))
                \<or> (flt (float_col df ''Gap_Pct'' ! k) (Fin 0)
                   \<and> fge (float_col df ''high'' ! k) (float_col df ''Prior_Close'' ! k)))
          \<and> (float_col df ''Gap_Pct'' ! k = Fin 0 \<longrightarrow> int_col df ''Gap_Filled'' ! k = 0)
          \<and> float_col df ''Gap_Pct'' ! k
              = fmul (fdiv (fsub (float_col df ''open'' ! k) (float_col df ''Prior_Close'' ! k))
                           (float_col df ''Prior_Close'' ! k)) (Fin 100))"
proof -
  from assms(3) obtain spx' vix0 trend where f: "fetch e start TICKER_SPX = Inr spx'"
    and df: "df = assembled e start spx' vix0 trend"
    by (rule build_table_InrE)
  from f assms(1) have [simp]: "spx' = spx" by simp
  let ?n = "length (index spx)"
  let ?K = "kept start (index spx)"
  let ?pc = "shift 1 (Close spx)"
  let ?gap = "scale 100 (sdiv (ssub (Open spx) ?pc) ?pc)"
  let ?gf = "gap_filled ?gap (Low spx) (High spx) ?pc"
  from assms(2) have lens: "length (Open spx) = ?n" "length (High spx) = ?n"
    "length (Low spx) = ?n" "length ?pc = ?n" "length ?gap = ?n"
    by (simp_all add: well_formed_def scale_def sdiv_def ssub_def)
  then have lgf: "length ?gf = ?n" by (simp add: length_gap_filled)
  have c_gf: "int_col df ''Gap_Filled'' = map ((!) ?gf) ?K"
    unfolding df using int_col_assembled[OF gap_names_in_cols(1) features_Gap_Filled lgf] by simp
  have c_gap: "float_col df ''Gap_Pct'' = map ((!) ?gap) ?K"
    unfolding df using float_col_assembled[OF gap_names_in_cols(2) features_Gap_Pct lens(5)]
    by simp
  have c_open: "float_col df ''open'' = map ((!) (Open spx)) ?K"
    unfolding df using float_col_assembled[OF gap_names_in_cols(3) features_open lens(1)] by simp
  have c_high: "float_col df ''high'' = map ((!) (High spx)) ?K"
    unfolding df using float_col_assembled[OF gap_names_in_cols(4) features_high lens(2)] by simp
  have c_low: "float_col df ''low'' = map ((!) (Low spx)) ?K"
    unfolding df using float_col_assembled[OF gap_names_in_cols(5) features_low lens(3)] by simp
  have c_pc: "float_col df ''Prior_Close'' = map ((!) ?pc) ?K"
    unfolding df using float_col_assembled[OF Prior_Close_in_cols features_Prior_Close lens(4)]
    by simp
  have ix: "length (df_index df) = length ?K"
    by (simp add: df df_index_assembled)
  have row: "int_col df ''Gap_Filled'' ! k \<in> {0, 1}
      \<and> (int_col df ''Gap_Filled'' ! k = 1 \<longleftrightarrow>
            (fgt (float_col df ''Gap_Pct'' ! k) (Fin 0)
               \<and> fle (float_col df ''low'' ! k) (float_col df ''Prior_Close'' ! k))
            \<or> (flt (float_col df ''Gap_Pct'' ! k) (Fin 0)
               \<and> fge (float_col df ''high'' ! k) (float_col df ''Prior_Close'' ! k)))
      \<and> (float_col df ''Gap_Pct'' ! k = Fin 0 \<longrightarrow> int_col df ''Gap_Filled'' ! k = 0)
      \<and> float_col df ''Gap_Pct'' ! k
          = fmul (fdiv (fsub (float_col df ''open'' ! k) (float_col df ''Prior_Close'' ! k))
                       (float_col df ''Prior_Close'' ! k)) (Fin 100)"
    if k': "k < length (df_index df)" for k
  proof -
    from k' ix have k: "k < length ?K" by simp
    let ?j = "?K ! k"
    have j: "?j < ?n" by (rule kept_lt[OF k])
    have g: "?gf ! ?j =
        (if (fgt (?gap ! ?j) (Fin 0) \<and> fle (Low spx ! ?j) (?pc ! ?j))
            \<or> (flt (?gap ! ?j) (Fin 0) \<and> fge (High spx ! ?j) (?pc ! ?j)) then 1 else 0)"
      by (rule gap_filled_nth) (use j lens in simp_all)
    have gp: "?gap ! ?j = fmul (fdiv (fsub (Open spx ! ?j) (?pc ! ?j)) (?pc ! ?j)) (Fin 100)"
      using j lens(1,4) by (simp add: scale_def sdiv_def ssub_def)
    have z: "\<not> fgt (Fin 0) (Fin 0)" "\<not> flt (Fin 0) (Fin 0)" by (simp_all add: fgt_def)
    show ?thesis
      unfolding c_gf c_gap c_open c_high c_low c_pc nth_map[OF k] g
      using gp z by auto
  qed
  have "length (int_col df ''Gap_Filled'') = length (df_index df)"
    by (simp add: c_gf ix)
  with row show ?thesis by blast
qed

theorem gap_filled_rule_witness:
  "fetch sample_env sample_start TICKER_SPX = Inr sample_spx \<and> well_formed sample_spx
   \<and> (\<exists>df. build_table sample_env sample_start = Inr df \<and> length (df_index df) = 2
         \<and> float_col df ''Gap_Pct'' ! 0 = Fin (100 / 101) \<and> int_col df ''Gap_Filled'' ! 0 = 1)"
proof -
  let ?df = "assembled sample_env sample_start sample_spx sample_vix [0, 3, - 3]"
  have n: "length (df_index ?df) = 2" by (simp add: df_index_assembled sample_kept)
  have pc: "float_col ?df ''Prior_Close'' = [Fin 101, Fin 103]"
    by (simp add: float_col_Prior_Close[OF sample_well_formed] sample_kept)
       (simp add: sample_spx_def shift_def)
  have op: "float_col ?df ''open'' = [Fin 102, Fin 101]"
    by (simp add: float_col_open[OF sample_well_formed] sample_kept) (simp add: sample_spx_def)
  have lo: "float_col ?df ''low'' = [Fin 100, Fin 100]"
    by (simp add: float_col_low[OF sample_well_formed] sample_kept) (simp add: sample_spx_def)
  from gap_filled_rule[OF sample_fetch_spx sample_well_formed sample_build_table] n
  have "float_col ?df ''Gap_Pct'' ! 0 = Fin (100 / 101) \<and> int_col ?df ''Gap_Filled'' ! 0 = 1"
    by (simp add: pc op lo fsub_def fgt_def fle_def feq_def)
  with sample_fetch_spx sample_well_formed sample_build_table n show ?thesis by blast
qed


subsection \<open>Output columns\<close>

lemma length_cols: "length cols = 58"
  by (simp add: cols_def)

lemma placeholders_in_cols: "name \<in> set placeholders \<Longrightarrow> name \<in> set cols"
  by (auto simp: placeholders_def cols_def)

lemma features_placeholder:
  "name \<in> set placeholders \<Longrightarrow>
   column_of (features tz spx vix v9 v3 tr) name
     = Some (FloatCol (replicate (length (index spx)) NaN))"
  by (auto simp: placeholders_def column_of_def features_def Let_def)

lemma filter_mask_replicate:
  "filter_mask (map P idx) (replicate (length idx) v) = replicate (length (filter P idx)) v"
proof -
  have "replicate (length idx) v = map (\<lambda>_. v) idx" by (simp add: map_replicate_const)
  then have "filter_mask (map P idx) (replicate (length idx) v) = map (\<lambda>_. v) (filter P idx)"
    by (simp only: filter_mask_map)
  then show ?thesis by (simp add: map_replicate_const)
qed

lemma df_columns_reindex_columns:
  "df_columns (reindex_columns names df)
     = map (\<lambda>c. (c, case column_of df c of
                       Some col \<Rightarrow> col
                     | None \<Rightarrow> FloatCol (replicate (length (df_index df)) NaN))) names"
  by (simp add: reindex_columns_def column_of_def)

text \<open>The header of the written file is the column list, and row \<open>i\<close> holds, in that
  order, the cell \<open>i\<close> of each column.\<close>

lemma to_csv_reindex_columns:
  "fst (to_csv (reindex_columns names df)) = names"
  "length (snd (to_csv (reindex_columns names df))) = length (df_index df)"
  "i < length (df_index df) \<Longrightarrow> k < length names \<Longrightarrow>
   snd (to_csv (reindex_columns names df)) ! i ! k
     = cells_of (reindex_columns names df) (names ! k) ! i"
  "row \<in> set (snd (to_csv (reindex_columns names df))) \<Longrightarrow> length row = length names"
proof -
  let ?g = "\<lambda>c. case column_of df c of
                  Some col \<Rightarrow> col
                | None \<Rightarrow> FloatCol (replicate (length (df_index df)) NaN)"
  show "fst (to_csv (reindex_columns names df)) = names"
    by (simp add: to_csv_def df_columns_reindex_columns o_def)
  show "length (snd (to_csv (reindex_columns names df))) = length (df_index df)"
    by (simp add: to_csv_def)
  show "length row = length names" if "row \<in> set (snd (to_csv (reindex_columns names df)))"
    using that by (auto simp: to_csv_def df_columns_reindex_columns)
  show "snd (to_csv (reindex_columns names df)) ! i ! k
      = cells_of (reindex_columns names df) (names ! k) ! i"
    if "i < length (df_index df)" "k < length names"
  proof -
    have "column_of (reindex_columns names df) (names ! k) = Some (?g (names ! k))"
      using that(2)
      by (simp add: column_of_def[of "reindex_columns names df"] df_columns_reindex_columns
          map_of_map_restrict)
    then show ?thesis
      using that by (simp add: to_csv_def df_columns_reindex_columns cells_of_def)
  qed
qed

lemma build_writes:
  "build_table e start = Inr df \<Longrightarrow> dirname output \<noteq> [] \<Longrightarrow>
   snd (build e start output files) = files(output \<mapsto> to_csv df)"
  by (simp add: build_def Let_def)

text \<open>
  Claim C8, as stated, fails in its count: the output contract declares 58 columns,
  not 57.
\<close>

theorem output_columns_count_counterexample: "length cols = 58 \<and> length cols \<noteq> 57"
  by (simp add: cols_def)

text \<open>
  Claim C8, amended: the file written by a run has the 58 declared columns as its header,
  in the fixed order of the contract, with no name twice; every emitted row has one cell
  for each of them, in that order; and the placeholder columns are present in every row
  with a missing value.
\<close>

theorem output_columns_fixed:
  assumes "build_table e start = Inr df" "dirname output \<noteq> []"
  shows "snd (build e start output files) output = Some (to_csv df)
     \<and> fst (to_csv df) = cols \<and> length cols = 58 \<and> distinct cols
     \<and> length (snd (to_csv df)) = length (df_index df)
     \<and> (\<forall>row \<in> set (snd (to_csv df)). length row = 58)
     \<and> (\<forall>i<length (df_index df). \<forall>k<58.
           snd (to_csv df) ! i ! k = cells_of df (cols ! k) ! i)
     \<and> (\<forall>name \<in> set placeholders.
           name \<in> set cols
           \<and> cells_of df name = replicate (length (df_index df)) (CFloat NaN))"
proof -
  from assms(1) obtain spx vix0 trend where df: "df = assembled e start spx vix0 trend"
    by (rule build_table_InrE)
  let ?F = "features (eastern e) spx (reindex vix0 (index spx))
     (secondary e start TICKER_VIX9D (index spx)) (secondary e start TICKER_VIX3M (index spx)) trend"
  have df': "df = reindex_columns cols (trim start ?F)"
    by (simp add: df assembled_def)
  have ix: "df_index (trim start ?F) = df_index df" by (simp add: df')
  have w: "snd (build e start output files) output = Some (to_csv df)"
    by (simp add: build_writes[OF assms])
  have d: "distinct cols" by (simp add: cols_def)
  have rows: "\<forall>row \<in> set (snd (to_csv df)). length row = 58"
    unfolding df' using to_csv_reindex_columns(4)[of _ cols "trim start ?F"]
    by (simp add: length_cols)
  have cells: "\<forall>i<length (df_index df). \<forall>k<58.
      snd (to_csv df) ! i ! k = cells_of df (cols ! k) ! i"
    using to_csv_reindex_columns(3)[of _ "trim start ?F" _ cols]
    by (simp add: ix length_cols df'[symmetric])
  have ph: "name \<in> set cols \<and> cells_of df name = replicate (length (df_index df)) (CFloat NaN)"
    if "name \<in> set placeholders" for name
  proof -
    have "column_of df name
        = Some (col_filter (map (\<lambda>d. date_ge d start) (index spx))
                  (FloatCol (replicate (length (index spx)) NaN)))"
      unfolding df
      by (rule column_of_assembled[OF placeholders_in_cols[OF that] features_placeholder[OF that]])
    moreover have "length (df_index df) = length (filter (\<lambda>d. date_ge d start) (index spx))"
      by (simp add: df assembled_def df_index_trim)
    ultimately show ?thesis
      using placeholders_in_cols[OF that]
      by (simp add: cells_of_def filter_mask_replicate)
  qed
  from w d rows cells ph show ?thesis
    by (simp add: length_cols to_csv_reindex_columns(1,2)[of cols "trim start ?F", folded df'] ix)
qed

lemma dirname_sample: "dirname ''/data/spx_daily.csv'' = ''/data''"
  by (simp add: dirname_def rstrip_slash_def Let_def)

theorem output_columns_fixed_witness:
  "dirname ''/data/spx_daily.csv'' \<noteq> []
   \<and> (\<exists>df. build_table sample_env sample_start = Inr df
         \<and> snd (build sample_env sample_start ''/data/spx_daily.csv'' Map.empty)
              ''/data/spx_daily.csv'' = Some (to_csv df)
         \<and> fst (to_csv df) = cols \<and> length (snd (to_csv df)) = 2
         \<and> length (snd (to_csv df) ! 0) = 58
         \<and> cells_of df ''High_Time'' = [CFloat NaN, CFloat NaN])"
proof -
  let ?df = "assembled sample_env sample_start sample_spx sample_vix [0, 3, - 3]"
  have p: "dirname ''/data/spx_daily.csv'' \<noteq> []" by (simp add: dirname_sample)
  have n: "length (df_index ?df) = 2" by (simp add: df_index_assembled sample_kept)
  have h: "''High_Time'' \<in> set placeholders" by (simp add: placeholders_def)
  from output_columns_fixed[OF sample_build_table p, of sample_start Map.empty] n h
  have "snd (build sample_env sample_start ''/data/spx_daily.csv'' Map.empty)
          ''/data/spx_daily.csv'' = Some (to_csv ?df)
      \<and> fst (to_csv ?df) = cols \<and> length (snd (to_csv ?df)) = 2
      \<and> length (snd (to_csv ?df) ! 0) = 58
      \<and> cells_of ?df ''High_Time'' = [CFloat NaN, CFloat NaN]"
    by (auto simp: numeral_2_eq_2)
  with p sample_build_table show ?thesis by blast
qed


subsection \<open>Term-structure state of the table\<close>

lemma length_term_state:
  "length rvx3m = length r9d \<Longrightarrow> length (term_state r9d rvx3m) = length r9d"
  by (simp add: term_state_def Let_def mask_assign_def)

lemma length_reindex_Close [simp]: "length (Close (reindex f idx)) = length idx"
  by (simp add: reindex_def reindex_series_def)

lemma length_reindex_series [simp]: "length (reindex_series src vals idx) = length idx"
  by (simp add: reindex_series_def)

lemma features_Term_Structure_State:
  "column_of (features tz spx vix v9 v3 tr) ''Term_Structure_State''
     = Some (IntCol (term_state
          (sdiv (reindex_series (index v9) (Close v9) (index spx)) (Close vix))
          (sdiv (Close vix) (reindex_series (index v3) (Close v3) (index spx)))))"
  by (simp add: column_of_def features_def Let_def)

lemma length_sdiv: "length a = n \<Longrightarrow> length b = n \<Longrightarrow> length (sdiv a b) = n"
  by (simp add: sdiv_def)

lemma State_in_cols: "''Term_Structure_State'' \<in> set cols"
  by (simp add: cols_def)

lemma features_VIX_Close:
  "column_of (features tz spx vix v9 v3 tr) ''VIX_Close'' = Some (FloatCol (Close vix))"
  by (simp add: column_of_def features_def Let_def)

lemma features_VIX9D_Close:
  "column_of (features tz spx vix v9 v3 tr) ''VIX9D_Close''
     = Some (FloatCol (reindex_series (index v9) (Close v9) (index spx)))"
  by (simp add: column_of_def features_def Let_def)

lemma features_VIX3M_Close:
  "column_of (features tz spx vix v9 v3 tr) ''VIX3M_Close''
     = Some (FloatCol (reindex_series (index v3) (Close v3) (index spx)))"
  by (simp add: column_of_def features_def Let_def)

lemma features_VIX9D_VIX_Ratio:
  "column_of (features tz spx vix v9 v3 tr) ''VIX9D_VIX_Ratio''
     = Some (FloatCol (sdiv (reindex_series (index v9) (Close v9) (index spx)) (Close vix)))"
  by (simp add: column_of_def features_def Let_def)

lemma features_VIX_VIX3M_Ratio:
  "column_of (features tz spx vix v9 v3 tr) ''VIX_VIX3M_Ratio''
     = Some (FloatCol (sdiv (Close vix) (reindex_series (index v3) (Close v3) (index spx))))"
  by (simp add: column_of_def features_def Let_def)

lemma term_names_in_cols:
  "''VIX_Close'' \<in> set cols" "''VIX9D_Close'' \<in> set cols" "''VIX3M_Close'' \<in> set cols"
  "''VIX9D_VIX_Ratio'' \<in> set cols" "''VIX_VIX3M_Ratio'' \<in> set cols"
  by (simp_all add: cols_def)

lemma sdiv_nth:
  "i < length a \<Longrightarrow> i < length b \<Longrightarrow> sdiv a b ! i = fdiv (a ! i) (b ! i)"
  by (simp add: sdiv_def)

text \<open>
  Claim C4: in the written table the column VIX9D_VIX_Ratio is, row by row, the nine-day
  close over the short-vol close, and VIX_VIX3M_Ratio the short-vol close over the
  three-month close. On every row Term_Structure_State is one of \<open>-1\<close>, \<open>0\<close>, \<open>1\<close>; it is
  \<open>1\<close> exactly when both ratios of the row are \<open>\<le> 1\<close>, \<open>-1\<close> exactly when both are \<open>> 1\<close>,
  and so \<open>0\<close> in every other case; in particular a missing ratio gives \<open>0\<close>.
\<close>

theorem term_structure_state_column:
  assumes "build_table e start = Inr df"
  shows "length (int_col df ''Term_Structure_State'') = length (df_index df)
     \<and> length (float_col df ''VIX9D_VIX_Ratio'') = length (df_index df)
     \<and> length (float_col df ''VIX_VIX3M_Ratio'') = length (df_index df)
     \<and> (\<forall>k<length (df_index df).
          float_col df ''VIX9D_VIX_Ratio'' ! k
            = fdiv (float_col df ''VIX9D_Close'' ! k) (float_col df ''VIX_Close'' ! k)
          \<and> float_col df ''VIX_VIX3M_Ratio'' ! k
            = fdiv (float_col df ''VIX_Close'' ! k) (float_col df ''VIX3M_Close'' ! k)
          \<and> int_col df ''Term_Structure_State'' ! k \<in> {- 1, 0, 1}
          \<and> (int_col df ''Term_Structure_State'' ! k = 1 \<longleftrightarrow>
               fle (float_col df ''VIX9D_VIX_Ratio'' ! k) (Fin 1)
               \<and> fle (float_col df ''VIX_VIX3M_Ratio'' ! k) (Fin 1))
          \<and> (int_col df ''Term_Structure_State'' ! k = - 1 \<longleftrightarrow>
               fgt (float_col df ''VIX9D_VIX_Ratio'' ! k) (Fin 1)
               \<and> fgt (float_col df ''VIX_VIX3M_Ratio'' ! k) (Fin 1))
          \<and> (isna (float_col df ''VIX9D_VIX_Ratio'' ! k)
               \<or> isna (float_col df ''VIX_VIX3M_Ratio'' ! k) \<longrightarrow>
               int_col df ''Term_Structure_State'' ! k = 0))"
proof -
  from assms obtain spx vix0 trend where df: "df = assembled e start spx vix0 trend"
    by (rule build_table_InrE)
  let ?idx = "index spx"
  let ?v9 = "secondary e start TICKER_VIX9D ?idx"
  let ?v3 = "secondary e start TICKER_VIX3M ?idx"
  let ?c = "Close (reindex vix0 ?idx)"
  let ?c9 = "reindex_series (index ?v9) (Close ?v9) ?idx"
  let ?c3 = "reindex_series (index ?v3) (Close ?v3) ?idx"
  let ?r9 = "sdiv ?c9 ?c" and ?r3 = "sdiv ?c ?c3"
  let ?K = "kept start ?idx"
  have l9: "length ?r9 = length ?idx" and l3: "length ?r3 = length ?idx"
    by (simp_all add: length_sdiv)
  have ls: "length (term_state ?r9 ?r3) = length ?idx"
    by (simp add: length_term_state l9 l3)
  have c: "float_col df ''VIX_Close'' = map ((!) ?c) ?K"
    unfolding df by (rule float_col_assembled[OF term_names_in_cols(1) features_VIX_Close]) simp
  have c9: "float_col df ''VIX9D_Close'' = map ((!) ?c9) ?K"
    unfolding df by (rule float_col_assembled[OF term_names_in_cols(2) features_VIX9D_Close]) simp
  have c3: "float_col df ''VIX3M_Close'' = map ((!) ?c3) ?K"
    unfolding df by (rule float_col_assembled[OF term_names_in_cols(3) features_VIX3M_Close]) simp
  have r9: "float_col df ''VIX9D_VIX_Ratio'' = map ((!) ?r9) ?K"
    unfolding df
    by (rule float_col_assembled[OF term_names_in_cols(4) features_VIX9D_VIX_Ratio l9])
  have r3: "float_col df ''VIX_VIX3M_Ratio'' = map ((!) ?r3) ?K"
    unfolding df
    by (rule float_col_assembled[OF term_names_in_cols(5) features_VIX_VIX3M_Ratio l3])
  have s: "int_col df ''Term_Structure_State'' = map ((!) (term_state ?r9 ?r3)) ?K"
    unfolding df
    by (rule int_col_assembled[OF State_in_cols features_Term_Structure_State ls])
  have ix: "length (df_index df) = length ?K"
    by (simp add: df df_index_assembled)
  have row: "float_col df ''VIX9D_VIX_Ratio'' ! k
            = fdiv (float_col df ''VIX9D_Close'' ! k) (float_col df ''VIX_Close'' ! k)
          \<and> float_col df ''VIX_VIX3M_Ratio'' ! k
            = fdiv (float_col df ''VIX_Close'' ! k) (float_col df ''VIX3M_Close'' ! k)
          \<and> int_col df ''Term_Structure_State'' ! k \<in> {- 1, 0, 1}
          \<and> (int_col df ''Term_Structure_State'' ! k = 1 \<longleftrightarrow>
               fle (float_col df ''VIX9D_VIX_Ratio'' ! k) (Fin 1)
               \<and> fle (float_col df ''VIX_VIX3M_Ratio'' ! k) (Fin 1))
          \<and> (int_col df ''Term_Structure_State'' ! k = - 1 \<longleftrightarrow>
               fgt (float_col df ''VIX9D_VIX_Ratio'' ! k) (Fin 1)
               \<and> fgt (float_col df ''VIX_VIX3M_Ratio'' ! k) (Fin 1))
          \<and> (isna (float_col df ''VIX9D_VIX_Ratio'' ! k)
               \<or> isna (float_col df ''VIX_VIX3M_Ratio'' ! k) \<longrightarrow>
               int_col df ''Term_Structure_State'' ! k = 0)"
    if k: "k < length ?K" for k
  proof -
    let ?j = "?K ! k"
    from kept_lt[OF k] have j: "?j < length ?idx" .
    from j l9 have j9: "?j < length ?r9" by simp
    have a: "?r9 ! ?j = fdiv (?c9 ! ?j) (?c ! ?j)" using j by (simp add: sdiv_nth)
    have b: "?r3 ! ?j = fdiv (?c ! ?j) (?c3 ! ?j)" using j by (simp add: sdiv_nth)
    from l9 l3 have l: "length ?r3 = length ?r9" by simp
    note t = term_state_cases[OF l j9]
    show ?thesis
      unfolding c c9 c3 r9 r3 s nth_map[OF k] using a b t by blast
  qed
  have lens: "length (int_col df ''Term_Structure_State'') = length ?K"
    "length (float_col df ''VIX9D_VIX_Ratio'') = length ?K"
    "length (float_col df ''VIX_VIX3M_Ratio'') = length ?K"
    by (simp_all add: r9 r3 s)
  show ?thesis unfolding ix using lens row by blast
qed

lemma sample3_fetch:
  "fetch sample_env3 start TICKER_SPX = Inr sample_spx"
  "fetch sample_env3 start TICKER_VIX = Inr sample_vix"
  by (simp_all add: fetch_def download_def sample_env3_def sample_env_def sample_spx_def
      sample_vix_def sample_dates_def TICKER_SPX_def TICKER_VIX_def)

lemma sample3_secondary:
  "secondary sample_env3 start TICKER_VIX9D sample_dates = sample_vix9d"
  "secondary sample_env3 start TICKER_VIX3M sample_dates = sample_vix3m"
  by (simp_all add: secondary_def download_or_nan_def download_def sample_env3_def sample_env_def
      sample_vix9d_def sample_vix3m_def sample_dates_def reindex_def reindex_series_def
      TICKER_SPX_def TICKER_VIX_def TICKER_VIX9D_def TICKER_VIX3M_def)

theorem term_structure_state_column_witness:
  "\<exists>df. build_table sample_env3 (hd sample_dates) = Inr df
       \<and> float_col df ''VIX9D_Close'' = [Fin 14, Fin 17, Fin 16]
       \<and> float_col df ''VIX_Close'' = [Fin 15, Fin 16, NaN]
       \<and> float_col df ''VIX3M_Close'' = [Fin 16, Fin 15, Fin 17]
       \<and> float_col df ''VIX9D_VIX_Ratio'' = [Fin (14 / 15), Fin (17 / 16), NaN]
       \<and> float_col df ''VIX_VIX3M_Ratio'' = [Fin (15 / 16), Fin (16 / 15), NaN]
       \<and> int_col df ''Term_Structure_State'' = [1, - 1, 0]"
proof -
  let ?df = "assembled sample_env3 (hd sample_dates) sample_spx sample_vix [0, 3, - 3]"
  have bt: "build_table sample_env3 (hd sample_dates) = Inr ?df"
    by (rule build_table_eq[OF sample3_fetch sample_trend])
  have ix: "index sample_spx = sample_dates" by (simp add: sample_spx_def)
  note ka = sample_kept_all[unfolded ix]
  have n: "length (df_index ?df) = 3" by (simp add: df_index_assembled sample_kept_all)
  have c9: "float_col ?df ''VIX9D_Close'' = [Fin 14, Fin 17, Fin 16]"
    by (subst float_col_assembled[OF term_names_in_cols(2) features_VIX9D_Close])
       (simp_all add: ka ix sample3_secondary,
        simp add: sample_vix9d_def sample_dates_def reindex_series_def)
  have c3: "float_col ?df ''VIX3M_Close'' = [Fin 16, Fin 15, Fin 17]"
    by (subst float_col_assembled[OF term_names_in_cols(3) features_VIX3M_Close])
       (simp_all add: ka ix sample3_secondary,
        simp add: sample_vix3m_def sample_dates_def reindex_series_def)
  have c: "float_col ?df ''VIX_Close'' = [Fin 15, Fin 16, NaN]"
    by (subst float_col_assembled[OF term_names_in_cols(1) features_VIX_Close])
       (simp_all add: ka ix,
        simp add: sample_vix_def sample_dates_def reindex_def reindex_series_def)
  note t = term_structure_state_column[OF bt]
  from t have lr9: "length (float_col ?df ''VIX9D_VIX_Ratio'') = 3"
    and lr3: "length (float_col ?df ''VIX_VIX3M_Ratio'') = 3"
    and ls: "length (int_col ?df ''Term_Structure_State'') = 3"
    by (simp_all add: n)
  note rows = t[THEN conjunct2, THEN conjunct2, THEN conjunct2, unfolded n, rule_format]
  have k: "(0::nat) < 3" "(1::nat) < 3" "(2::nat) < 3" by simp_all
  note r0 = rows[OF k(1)] and r1 = rows[OF k(2)] and r2 = rows[OF k(3)]
  have v9: "float_col ?df ''VIX9D_VIX_Ratio'' ! 0 = Fin (14 / 15)"
    "float_col ?df ''VIX9D_VIX_Ratio'' ! 1 = Fin (17 / 16)"
    "float_col ?df ''VIX9D_VIX_Ratio'' ! 2 = NaN"
    using r0 r1 r2 by (simp_all add: c9 c)
  have v3: "float_col ?df ''VIX_VIX3M_Ratio'' ! 0 = Fin (15 / 16)"
    "float_col ?df ''VIX_VIX3M_Ratio'' ! 1 = Fin (16 / 15)"
    "float_col ?df ''VIX_VIX3M_Ratio'' ! 2 = NaN"
    using r0 r1 r2 by (simp_all add: c3 c)
  have vs: "int_col ?df ''Term_Structure_State'' ! 0 = 1"
    "int_col ?df ''Term_Structure_State'' ! 1 = - 1"
    "int_col ?df ''Term_Structure_State'' ! 2 = 0"
    using r0 r1 r2 by (simp_all add: c9 c c3 fle_def fgt_def feq_def isna_def)
  have r9: "float_col ?df ''VIX9D_VIX_Ratio'' = [Fin (14 / 15), Fin (17 / 16), NaN]"
    by (rule list3_eqI[OF lr9 v9])
  have r3: "float_col ?df ''VIX_VIX3M_Ratio'' = [Fin (15 / 16), Fin (16 / 15), NaN]"
    by (rule list3_eqI[OF lr3 v3])
  have s: "int_col ?df ''Term_Structure_State'' = [1, - 1, 0]"
    by (rule list3_eqI[OF ls vs])
  from bt c9 c c3 r9 r3 s show ?thesis by blast
qed

section \<open>Source failures\<close>

subsection \<open>The trend score of finite closes\<close>

lemma is_fin_fsub: "is_fin a \<Longrightarrow> is_fin b \<Longrightarrow> is_fin (fsub a b)"
  by (auto simp: is_fin_conv fsub_def)

lemma is_fin_fadd: "is_fin a \<Longrightarrow> is_fin b \<Longrightarrow> is_fin (fadd a b)"
  by (auto simp: is_fin_conv)

lemma is_fin_np_sign: "is_fin a \<Longrightarrow> is_fin (np_sign a)"
  by (auto simp: is_fin_conv)

text \<open>Without adjustment the weight of the history is 1 after each observation, so the
  mean of finite values is a finite convex combination.\<close>

lemma ewm_step_fin:
  assumes "is_fin (weighted st)" "old_wt st = 1" "is_fin cur"
  shows "is_fin (weighted (ewm_step alpha False st cur)) \<and> old_wt (ewm_step alpha False st cur) = 1"
  using assms by (auto simp: is_fin_conv ewm_step_def isna_def Let_def)

lemma ewm_loop_fin:
  "is_fin (weighted st) \<Longrightarrow> old_wt st = 1 \<Longrightarrow> all_fin xs \<Longrightarrow>
   all_fin (ewm_loop alpha False 0 st xs)"
proof (induction xs arbitrary: st)
  case Nil
  then show ?case by (simp add: all_fin_def)
next
  case (Cons x xs)
  from Cons.prems(3) have x: "is_fin x" and xs: "all_fin xs" by (simp_all add: all_fin_def)
  note st = ewm_step_fin[OF Cons.prems(1,2) x, of alpha]
  from Cons.IH[OF conjunct1[OF st] conjunct2[OF st] xs] st
  show ?case by (simp add: all_fin_def Let_def ewm_out_def)
qed

lemma ema_fin: "all_fin c \<Longrightarrow> all_fin (ema c n)"
proof (cases c)
  case Nil
  then show ?thesis by (simp add: ema_def ewm_mean_def prep_values_def all_fin_def)
next
  case (Cons x xs)
  assume c: "all_fin c"
  with Cons have x: "is_fin x" and xs: "all_fin xs" by (simp_all add: all_fin_def)
  let ?st = "\<lparr>weighted = x, old_wt = 1, nobs = (if isna x then 0 else 1)\<rparr>"
  have "all_fin (ewm_loop (1 / (1 + (real n - 1) / 2)) False 0 ?st xs)"
    by (rule ewm_loop_fin) (use x xs in simp_all)
  with x show ?thesis
    unfolding ema_def ewm_mean_def prep_values_fin[OF c] prep_values_fin[OF c, unfolded Cons] Cons
    by (simp add: all_fin_def Let_def ewm_out_def)
qed

lemma length_ema [simp]: "length (ema c n) = length c"
  by (simp add: ema_def)

lemma sign_diff_fin:
  assumes "all_fin c" "all_fin e" "length e = length c"
  shows "all_fin (map np_sign (ssub c e))" "length (map np_sign (ssub c e)) = length c"
  using assms
  by (auto intro!: all_finI is_fin_np_sign is_fin_fsub simp: ssub_def all_fin_nth)

lemma sadd_fin:
  assumes "all_fin a" "all_fin b" "length a = n" "length b = n"
  shows "all_fin (sadd a b)" "length (sadd a b) = n"
  using assms by (auto intro!: all_finI is_fin_fadd simp: sadd_def all_fin_nth)

lemma trend_sc_fin:
  assumes "all_fin c"
  shows "all_fin (trend_sc c)"
proof -
  note s21 = sign_diff_fin[OF assms ema_fin[OF assms, of 21] length_ema]
  note s50 = sign_diff_fin[OF assms ema_fin[OF assms, of 50] length_ema]
  note s200 = sign_diff_fin[OF assms ema_fin[OF assms, of 200] length_ema]
  note a = sadd_fin[OF s21(1) s50(1) s21(2) s50(2)]
  note b = sadd_fin[OF a(1) s200(1) a(2) s200(2)]
  show ?thesis
    unfolding trend_sc_def Let_def
    by (rule all_finI) (use b(1) in \<open>auto intro!: is_fin_fadd simp: all_fin_nth\<close>)
qed

lemma astype_int_fin: "all_fin xs \<Longrightarrow> \<exists>vs. astype_int xs = Inr vs"
proof (induction xs)
  case Nil
  then show ?case by simp
next
  case (Cons x xs)
  then obtain r vs where "x = Fin r" "astype_int xs = Inr vs"
    by (auto simp: all_fin_def is_fin_conv)
  then show ?case by simp
qed

lemma trend_score_total: "all_fin c \<Longrightarrow> \<exists>trend. trend_score c = Inr trend"
  using astype_int_fin[OF trend_sc_fin, of c] by (auto simp: trend_score_def)

subsection \<open>The substituted frame and its columns\<close>

lemma reindex_series_nan:
  "reindex_series src (replicate n NaN) idx = replicate (length idx) NaN"
proof -
  have "(case map_of (zip src (replicate n NaN)) d of None \<Rightarrow> NaN | Some v \<Rightarrow> v) = NaN" for d
    by (auto split: option.split dest!: map_of_SomeD set_zip_rightD)
  then show ?thesis by (simp add: reindex_series_def map_replicate_const)
qed

lemma reindex_nan_frame: "reindex (nan_frame idx) idx' = nan_frame idx'"
  by (simp add: reindex_def nan_frame_def reindex_series_nan)

text \<open>A failed secondary download is replaced by the all-NaN frame on the calendar.\<close>

lemma secondary_failed:
  "fetch e start ticker = Inl err \<Longrightarrow> secondary e start ticker idx = nan_frame idx"
  by (simp add: fetch_def secondary_def download_or_nan_def reindex_nan_frame)

lemma ffill_from_nan: "ffill_from NaN (replicate n NaN) = replicate n NaN"
  by (induction n) (simp_all add: isna_def)

lemma shift_nan: "shift k (replicate n NaN) = replicate n NaN"
  by (simp add: shift_def flip: replicate_add) 

lemma map2_replicate_left:
  "length b = n \<Longrightarrow> map2 f (replicate n v) b = map (f v) b"
  by (induction b arbitrary: n) auto

lemma map2_replicate_right:
  "length a = n \<Longrightarrow> map2 f a (replicate n v) = map (\<lambda>x. f x v) a"
  by (induction a arbitrary: n) auto

lemma fdiv_NaN_fun: "fdiv NaN = (\<lambda>_. NaN)"
  by (rule ext) simp

lemma sdiv_nan_left: "length b = n \<Longrightarrow> sdiv (replicate n NaN) b = replicate n NaN"
  by (simp add: sdiv_def map2_replicate_left fdiv_NaN_fun map_replicate_const)

lemma sdiv_nan_right: "length a = n \<Longrightarrow> sdiv a (replicate n NaN) = replicate n NaN"
  by (simp add: sdiv_def map2_replicate_right map_replicate_const)

lemma scale_nan: "scale k (replicate n NaN) = replicate n NaN"
  by (simp add: scale_def)

lemma pct_change_nan: "pct_change k (replicate n NaN) = replicate n NaN"
  by (simp add: pct_change_def ffill_def ffill_from_nan shift_nan Let_def
      map2_replicate_left fdiv_NaN_fun fsub_def)

lemma term_state_nan_left:
  "length b = n \<Longrightarrow> term_state (replicate n NaN) b = replicate n 0"
  by (rule nth_equalityI) (simp_all add: length_term_state term_state_nth)

lemma term_state_nan_right:
  "length a = n \<Longrightarrow> term_state a (replicate n NaN) = replicate n 0"
  by (rule nth_equalityI) (simp_all add: length_term_state term_state_nth)

lemma instrument_columns_9d:
  "name \<in> set (instrument_columns TICKER_VIX9D) \<longleftrightarrow>
     name = ''VIX9D_Open'' \<or> name = ''VIX9D_Close'' \<or> name = ''VIX9D_Change_Pct''
     \<or> name = ''VIX9D_VIX_Ratio''"
  by (auto simp: instrument_columns_def)

lemma instrument_columns_3m:
  "name \<in> set (instrument_columns TICKER_VIX3M) \<longleftrightarrow>
     name = ''VIX3M_Open'' \<or> name = ''VIX3M_Close'' \<or> name = ''VIX3M_Change_Pct''
     \<or> name = ''VIX_VIX3M_Ratio''"
  by (auto simp: instrument_columns_def TICKER_VIX9D_def TICKER_VIX3M_def)

lemma instrument_columns_in_cols:
  "name \<in> set (instrument_columns TICKER_VIX9D) \<Longrightarrow> name \<in> set cols"
  "name \<in> set (instrument_columns TICKER_VIX3M) \<Longrightarrow> name \<in> set cols"
  by (auto simp: instrument_columns_9d instrument_columns_3m cols_def)

text \<open>With the all-NaN frame in its place, the columns of an instrument are all NaN and
  the term-structure state is 0 on every row.\<close>

lemma features_nan9d:
  assumes "name \<in> set (instrument_columns TICKER_VIX9D)" "length (Close vix) = length (index spx)"
  shows "column_of (features tz spx vix (nan_frame (index spx)) v3 tr) name
     = Some (FloatCol (replicate (length (index spx)) NaN))"
  using assms
  by (auto simp: instrument_columns_9d column_of_def features_def Let_def nan_frame_def
      reindex_series_nan pct_change_nan scale_nan sdiv_nan_left)

lemma features_nan3m:
  assumes "name \<in> set (instrument_columns TICKER_VIX3M)" "length (Close vix) = length (index spx)"
  shows "column_of (features tz spx vix v9 (nan_frame (index spx)) tr) name
     = Some (FloatCol (replicate (length (index spx)) NaN))"
  using assms
  by (auto simp: instrument_columns_3m column_of_def features_def Let_def nan_frame_def
      reindex_series_nan pct_change_nan scale_nan sdiv_nan_right)

lemma features_state_nan9d:
  assumes "length (Close vix) = length (index spx)"
  shows "column_of (features tz spx vix (nan_frame (index spx)) v3 tr) ''Term_Structure_State''
     = Some (IntCol (replicate (length (index spx)) 0))"
  unfolding features_Term_Structure_State
  by (simp add: nan_frame_def reindex_series_nan sdiv_nan_left[OF assms]
      term_state_nan_left[OF length_sdiv[OF assms]])

lemma features_state_nan3m:
  assumes "length (Close vix) = length (index spx)"
  shows "column_of (features tz spx vix v9 (nan_frame (index spx)) tr) ''Term_Structure_State''
     = Some (IntCol (replicate (length (index spx)) 0))"
  unfolding features_Term_Structure_State
  by (simp add: nan_frame_def reindex_series_nan sdiv_nan_right[OF assms]
      term_state_nan_right[OF length_sdiv[OF _ assms]])

lemma length_df_index_assembled:
  "length (df_index (assembled e start spx vix0 trend))
     = length (filter (\<lambda>d. date_ge d start) (index spx))"
  by (simp add: assembled_def df_index_trim)

lemma assembled_failed_columns:
  assumes "ticker = TICKER_VIX9D \<or> ticker = TICKER_VIX3M" "fetch e start ticker = Inl err"
    and "name \<in> set (instrument_columns ticker)"
  shows "name \<in> set cols"
    and "column_of (assembled e start spx vix0 trend) name
       = Some (FloatCol (replicate (length (df_index (assembled e start spx vix0 trend))) NaN))"
proof -
  from assms(1,3) show c: "name \<in> set cols" by (auto dest: instrument_columns_in_cols)
  from assms(1) show "column_of (assembled e start spx vix0 trend) name
       = Some (FloatCol (replicate (length (df_index (assembled e start spx vix0 trend))) NaN))"
  proof
    assume t: "ticker = TICKER_VIX9D"
    have "column_of (features (eastern e) spx (reindex vix0 (index spx))
             (secondary e start TICKER_VIX9D (index spx))
             (secondary e start TICKER_VIX3M (index spx)) trend) name
        = Some (FloatCol (replicate (length (index spx)) NaN))"
      unfolding secondary_failed[OF assms(2)[unfolded t]]
      by (rule features_nan9d) (use assms(3) t in simp_all)
    from column_of_assembled[OF c this] show ?thesis
      by (simp add: filter_mask_replicate length_df_index_assembled)
  next
    assume t: "ticker = TICKER_VIX3M"
    have "column_of (features (eastern e) spx (reindex vix0 (index spx))
             (secondary e start TICKER_VIX9D (index spx))
             (secondary e start TICKER_VIX3M (index spx)) trend) name
        = Some (FloatCol (replicate (length (index spx)) NaN))"
      unfolding secondary_failed[OF assms(2)[unfolded t]]
      by (rule features_nan3m) (use assms(3) t in simp_all)
    from column_of_assembled[OF c this] show ?thesis
      by (simp add: filter_mask_replicate length_df_index_assembled)
  qed
qed

lemma assembled_failed_state:
  assumes "ticker = TICKER_VIX9D \<or> ticker = TICKER_VIX3M" "fetch e start ticker = Inl err"
  shows "column_of (assembled e start spx vix0 trend) ''Term_Structure_State''
       = Some (IntCol (replicate (length (df_index (assembled e start spx vix0 trend))) 0))"
  using assms(1)
proof
  assume t: "ticker = TICKER_VIX9D"
  have "column_of (features (eastern e) spx (reindex vix0 (index spx))
           (secondary e start TICKER_VIX9D (index spx))
           (secondary e start TICKER_VIX3M (index spx)) trend) ''Term_Structure_State''
      = Some (IntCol (replicate (length (index spx)) 0))"
    unfolding secondary_failed[OF assms(2)[unfolded t]]
    by (rule features_state_nan9d) simp
  from column_of_assembled[OF State_in_cols this] show ?thesis
    by (simp add: filter_mask_replicate length_df_index_assembled)
next
  assume t: "ticker = TICKER_VIX3M"
  have "column_of (features (eastern e) spx (reindex vix0 (index spx))
           (secondary e start TICKER_VIX9D (index spx))
           (secondary e start TICKER_VIX3M (index spx)) trend) ''Term_Structure_State''
      = Some (IntCol (replicate (length (index spx)) 0))"
    unfolding secondary_failed[OF assms(2)[unfolded t]]
    by (rule features_state_nan3m) simp
  from column_of_assembled[OF State_in_cols this] show ?thesis
    by (simp add: filter_mask_replicate length_df_index_assembled)
qed

subsection \<open>Columns that do not read a secondary instrument\<close>

lemma features_independent:
  "name \<notin> set secondary_columns \<Longrightarrow>
   column_of (features tz spx vix v9 v3 tr) name = column_of (features tz spx vix v9' v3' tr) name"
  by (simp add: secondary_columns_def instrument_columns_def TICKER_VIX9D_def TICKER_VIX3M_def
      column_of_def features_def Let_def)

lemma column_of_reindex_columns_full:
  "column_of (reindex_columns names df) name
     = (if name \<in> set names
        then Some (case column_of df name of
                     Some c \<Rightarrow> c
                   | None \<Rightarrow> FloatCol (replicate (length (df_index df)) NaN))
        else None)"
  by (simp add: column_of_def[of "reindex_columns names df"] df_columns_reindex_columns
      map_of_map_restrict restrict_map_def)

lemma assembled_independent:
  assumes "name \<notin> set secondary_columns"
    and "yf e' TICKER_SPX = yf e TICKER_SPX" "yf e' TICKER_VIX = yf e TICKER_VIX"
    and "today e' = today e" "eastern e' = eastern e"
    and "build_table e start = Inr df" "build_table e' start = Inr df'"
  shows "column_of df' name = column_of df name"
proof -
  from assms(6) obtain spx vix0 trend where a: "fetch e start TICKER_SPX = Inr spx"
    "fetch e start TICKER_VIX = Inr vix0" "trend_score (Close spx) = Inr trend"
    "df = assembled e start spx vix0 trend"
    by (rule build_table_InrE)
  from assms(7) obtain spx' vix0' trend' where b: "fetch e' start TICKER_SPX = Inr spx'"
    "fetch e' start TICKER_VIX = Inr vix0'" "trend_score (Close spx') = Inr trend'"
    "df' = assembled e' start spx' vix0' trend'"
    by (rule build_table_InrE)
  have "fetch e' start TICKER_SPX = fetch e start TICKER_SPX"
    "fetch e' start TICKER_VIX = fetch e start TICKER_VIX"
    using assms(2-4) by (simp_all add: fetch_def download_def)
  with a b have same: "spx' = spx" "vix0' = vix0" "trend' = trend" by simp_all
  have F: "column_of (features (eastern e) spx (reindex vix0 (index spx))
             (secondary e' start TICKER_VIX9D (index spx))
             (secondary e' start TICKER_VIX3M (index spx)) trend) name
      = column_of (features (eastern e) spx (reindex vix0 (index spx))
             (secondary e start TICKER_VIX9D (index spx))
             (secondary e start TICKER_VIX3M (index spx)) trend) name"
    by (rule features_independent[OF assms(1)])
  show ?thesis
    unfolding a(4) b(4) same assembled_def column_of_reindex_columns_full column_of_trim
      df_index_trim df_index_features
    by (simp add: assms(5) F)
qed


subsection \<open>The outcome of a run\<close>

lemma build_aborts:
  "fetch e start TICKER_SPX = Inl err \<Longrightarrow> build e start output files = (Inl err, files)"
  by (simp add: build_def build_table_primary_fails)

lemma build_completes:
  "build_table e start = Inr df \<Longrightarrow> dirname output \<noteq> [] \<Longrightarrow> df_index df \<noteq> [] \<Longrightarrow>
   build e start output files = (Inr (), files(output \<mapsto> to_csv df))"
  by (simp add: build_def Let_def)

lemma sample_fetch_vix9d: "fetch sample_env start TICKER_VIX9D = Inl DownloadError"
  by (simp add: fetch_def download_def sample_env_def TICKER_SPX_def TICKER_VIX_def
      TICKER_VIX9D_def TICKER_VIX3M_def)

lemma sample2_fetch:
  "fetch sample_env2 start TICKER_SPX = Inr sample_spx"
  "fetch sample_env2 start TICKER_VIX = Inr sample_vix"
  "fetch sample_env2 start TICKER_VIX3M = Inl DownloadError"
  by (simp_all add: fetch_def download_def sample_env2_def sample_spx_def sample_vix_def
      sample_dates_def TICKER_SPX_def TICKER_VIX_def TICKER_VIX9D_def TICKER_VIX3M_def)

lemma offline_fetch: "fetch offline_env start ticker = Inl DownloadError"
  by (simp add: fetch_def download_def offline_env_def)

lemma sample_all_fin: "all_fin (Close sample_spx)"
  by (simp add: all_fin_def sample_spx_def)

lemma sample_has_rows: "\<exists>d\<in>set (index sample_spx). date_ge d sample_start"
  by (simp add: sample_spx_def sample_dates_def sample_start_def date_ge_def)

lemma sample_rows: "length (df_index (assembled e sample_start sample_spx vix0 trend)) = 2"
  by (simp add: df_index_assembled sample_kept)

lemma features_RSI_14:
  "column_of (features tz spx vix v9 v3 tr) ''RSI_14'' = Some (FloatCol (rsi (Close spx)))"
  by (simp add: column_of_def features_def Let_def)

lemma sample_rsi: "rsi (Close sample_spx) = [NaN, NaN, NaN]"
  by (simp add: sample_spx_def rsi_def rsi_n_def rsi_gain_def rsi_loss_def replace_def
      ewm_mean_def prep_values_def ewm_step_def ewm_out_def diff_def shift_def clip_lower_def
      clip_upper_def
      Let_def isna_def fsub_def fgt_def feq_def)





end
